theory Spec2Isabelle
  imports Main "HOL-Library.Sublist"
begin

section \<open>JavaScript values\<close>

text \<open>
  The values that travel through \<^verbatim>\<open>src/server/routes/api/index.ts\<close>: query parameters,
  decoded token payloads, JSON bodies. Numbers are the integers the code handles
  (timestamps). An object is the list of its own properties.
\<close>

datatype jsvalue =
    JUndefined
  | JNull
  | JBool bool
  | JNum int
  | JStr string
  | JArr "jsvalue list"
  | JObj "(string \<times> jsvalue) list"

datatype jstype = UndefinedT | ObjectT | BooleanT | NumberT | StringT

fun typeof :: "jsvalue \<Rightarrow> jstype" where
  "typeof JUndefined = UndefinedT"
| "typeof JNull = ObjectT"
| "typeof (JBool _) = BooleanT"
| "typeof (JNum _) = NumberT"
| "typeof (JStr _) = StringT"
| "typeof (JArr _) = ObjectT"
| "typeof (JObj _) = ObjectT"

text \<open>Reading a property \<^verbatim>\<open>v.k\<close>, as destructuring does: a missing one is undefined.\<close>

fun get_prop :: "string \<Rightarrow> jsvalue \<Rightarrow> jsvalue" where
  "get_prop k (JObj fields) = (case map_of fields k of Some v \<Rightarrow> v | None \<Rightarrow> JUndefined)"
| "get_prop k _ = JUndefined"

text \<open>\<^verbatim>\<open>v != null\<close>: the loose comparison is false exactly at null and undefined.\<close>

fun not_nullish :: "jsvalue \<Rightarrow> bool" where
  "not_nullish JUndefined = False"
| "not_nullish JNull = False"
| "not_nullish _ = True"

section \<open>Requests, responses, middleware\<close>

datatype http_method = GET | HEAD | POST | PUT | PATCH | DELETE | OPTIONS

record request =
  req_method :: http_method
  req_path :: string
  req_query :: "(string \<times> jsvalue) list"
  req_params :: "(string \<times> string) list"
  req_cookies :: "(string \<times> string) list"
  req_body :: jsvalue
  req_ip :: string
  req_user :: "string option"

datatype body = NoBody | Text string | Json jsvalue

record response =
  status :: nat
  body :: body

text \<open>
  A middleware calls \<^verbatim>\<open>next()\<close> with the request as it left it, answers, or
  calls \<^verbatim>\<open>next(err)\<close> with an error of some status.
\<close>

datatype mw_result = Next request | Respond response | NextError nat

definition query_value :: "string \<Rightarrow> request \<Rightarrow> jsvalue" where
  "query_value k req = (case map_of (req_query req) k of Some v \<Rightarrow> v | None \<Rightarrow> JUndefined)"

definition param_value :: "string \<Rightarrow> request \<Rightarrow> jsvalue" where
  "param_value k req = (case map_of (req_params req) k of Some s \<Rightarrow> JStr s | None \<Rightarrow> JUndefined)"

section \<open>The content token\<close>

text \<open>
  \<^verbatim>\<open>verifyToken\<close> and \<^verbatim>\<open>getAuthToken\<close> live in \<^verbatim>\<open>util/authUtil\<close>; here they
  are parameters. \<^verbatim>\<open>verifyToken(token)\<close> is a promise: it rejects with a failure or
  resolves with the decoded payload.
\<close>

datatype verify_failure = MalformedToken | BadSignature | Expired

type_synonym verifier = "string \<Rightarrow> verify_failure + jsvalue"
type_synonym parser = "jsvalue \<Rightarrow> jsvalue option"
type_synonym signer = "string \<Rightarrow> jsvalue \<Rightarrow> string"

text \<open>
  Modelled from the spec: \<^verbatim>\<open>contentTokenSchema\<close> (\<^verbatim>\<open>@shared/schema/api/torrents\<close>),
  whose \<^verbatim>\<open>safeParse\<close> accepts a payload with string fields username, hash, indices and
  a numeric issuance time, and returns those fields. The issuance time is the property
  \<^verbatim>\<open>iat\<close>, the name under which \<^verbatim>\<open>authenticateContentRequest\<close> reads it.
\<close>

definition contentTokenSchema_safeParse :: parser where
  "contentTokenSchema_safeParse payload =
     (if typeof (get_prop ''username'' payload) = StringT \<and>
         typeof (get_prop ''hash'' payload) = StringT \<and>
         typeof (get_prop ''indices'' payload) = StringT \<and>
         typeof (get_prop ''iat'' payload) = NumberT
      then Some (JObj [(''username'', get_prop ''username'' payload),
                       (''hash'', get_prop ''hash'' payload),
                       (''indices'', get_prop ''indices'' payload),
                       (''iat'', get_prop ''iat'' payload)])
      else None)"

text \<open>
  The nest of conditions of \<^verbatim>\<open>authenticateContentRequest\<close> (lines 32 to 50): the
  username and issuance time for which line 51 runs, or nothing.
  \<^verbatim>\<open>.catch(() => undefined)\<close> turns a rejection into undefined.
\<close>

definition contentGrant :: "verifier \<Rightarrow> parser \<Rightarrow> request \<Rightarrow> (string \<times> jsvalue) option" where
  "contentGrant verifyToken safeParse req =
     (case query_value ''token'' req of
        JStr token \<Rightarrow>
          if token \<noteq> [] then
            (let payload = (case verifyToken token of Inl _ \<Rightarrow> JUndefined | Inr p \<Rightarrow> p) in
             if not_nullish payload then
               (case safeParse payload of
                  Some data \<Rightarrow>
                    (let username = get_prop ''username'' data;
                         authorizedHash = get_prop ''hash'' data;
                         authorizedIndices = get_prop ''indices'' data;
                         iat = get_prop ''iat'' data in
                     (case username of
                        JStr name \<Rightarrow>
                          if typeof authorizedHash = StringT \<and> typeof authorizedIndices = StringT then
                            (let requestedHash = param_value ''hash'' req;
                                 requestedIndices = param_value ''indices'' req in
                             if requestedHash = authorizedHash \<and> requestedIndices = authorizedIndices
                             then Some (name, iat) else None)
                          else None
                      | _ \<Rightarrow> None))
                | None \<Rightarrow> None)
             else None)
          else None
      | _ \<Rightarrow> None)"

definition authenticateContentRequest :: "verifier \<Rightarrow> parser \<Rightarrow> signer \<Rightarrow> request \<Rightarrow> mw_result" where
  "authenticateContentRequest verifyToken safeParse getAuthToken req =
     (case contentGrant verifyToken safeParse req of
        Some (username, iat) \<Rightarrow> Next (req\<lparr>req_cookies := [(''jwt'', getAuthToken username iat)]\<rparr>)
      | None \<Rightarrow> Next req)"

section \<open>The rate limiter\<close>

text \<open>
  Modelled from the spec: the middleware that \<^verbatim>\<open>rateLimit({windowMs, max})\<close> of the
  package express-rate-limit builds. It owns a counter per client key:
  the window start and the count, created on the first request of a window, reset when the
  window has elapsed, incremented on every request. The key is the client's address. A
  request that takes the count above \<^verbatim>\<open>max\<close> is answered 429 at once.
\<close>

record rate_counter =
  windowStart :: nat
  count :: nat

type_synonym rate_store = "string \<Rightarrow> rate_counter option"

definition tooManyRequests :: response where
  "tooManyRequests = \<lparr>status = 429, body = Text ''Too many requests, please try again later.''\<rparr>"

text \<open>
  Modelled from the spec: one request through the limiter (express-rate-limit is a
  package, not a file of the router), at the time \<open>now\<close> in milliseconds.
\<close>

definition rateLimit :: "nat \<Rightarrow> nat \<Rightarrow> nat \<Rightarrow> rate_store \<Rightarrow> request \<Rightarrow> mw_result \<times> rate_store" where
  "rateLimit windowMs maxHits now store req =
     (let key = req_ip req;
          current = (case store key of
                       Some c \<Rightarrow> if now < windowStart c + windowMs then c
                                 else \<lparr>windowStart = now, count = 0\<rparr>
                     | None \<Rightarrow> \<lparr>windowStart = now, count = 0\<rparr>);
          hit = current\<lparr>count := count current + 1\<rparr>
      in (if maxHits < count hit then Respond tooManyRequests else Next req,
          store(key := Some hit)))"

section \<open>The router\<close>

text \<open>
  What the router takes from elsewhere: the token functions, the schema, the router of
  \<^verbatim>\<open>/auth\<close> (it answers or passes the request on), the JWT strategy run by
  \<^verbatim>\<open>passport.authenticate('jwt', {session: false})\<close> (the user it resolves, if any),
  \<^verbatim>\<open>appendUserServices\<close>, and \<^verbatim>\<open>decodeURIComponent\<close>, with which Express
  decodes a path parameter and which throws on a malformed escape.
\<close>

record deps =
  verifyToken :: verifier
  safeParse :: parser
  getAuthToken :: signer
  authRoutes :: "request \<Rightarrow> response option"
  jwtStrategy :: "request \<Rightarrow> string option"
  appendUserServices :: "request \<Rightarrow> mw_result"
  decodeURIComponent :: "string \<Rightarrow> string option"

text \<open>
  The two content routes are declared one after the other, each with a limiter of its
  own, built by its own call of \<^verbatim>\<open>rateLimit\<close> (lines 69 and 84).
\<close>

record router_state =
  dataLimiter :: rate_store
  subtitlesLimiter :: rate_store

definition initial_state :: router_state where
  "initial_state = \<lparr>dataLimiter = (\<lambda>_. None), subtitlesLimiter = (\<lambda>_. None)\<rparr>"

datatype content_kind = Data | Subtitles

fun limiterOf :: "content_kind \<Rightarrow> router_state \<Rightarrow> rate_store" where
  "limiterOf Data st = dataLimiter st"
| "limiterOf Subtitles st = subtitlesLimiter st"

fun setLimiter :: "content_kind \<Rightarrow> rate_store \<Rightarrow> router_state \<Rightarrow> router_state" where
  "setLimiter Data store st = st\<lparr>dataLimiter := store\<rparr>"
| "setLimiter Subtitles store st = st\<lparr>subtitlesLimiter := store\<rparr>"

subsection \<open>Matching a path\<close>

text \<open>
  \<^verbatim>\<open>express.Router()\<close> (line 25) is built with its default options: a path is
  matched without regard to the case of its letters, and one slash at its end is
  accepted. The path of a request is its path name below the mount point of the router,
  as sent; it is cut at every slash, so that a path that starts with a slash has an empty
  first segment and one that ends with a slash an empty last one.
\<close>

definition ascii_lower :: "char \<Rightarrow> char" where
  "ascii_lower c =
     (case map_of (zip ''ABCDEFGHIJKLMNOPQRSTUVWXYZ'' ''abcdefghijklmnopqrstuvwxyz'') c of
        Some l \<Rightarrow> l
      | None \<Rightarrow> c)"

definition lower :: "string \<Rightarrow> string" where
  "lower s = map ascii_lower s"

fun path_segments :: "string \<Rightarrow> string list" where
  "path_segments [] = [[]]"
| "path_segments (c # cs) =
     (if c = CHR ''/'' then [] # path_segments cs
      else (case path_segments cs of
              s # ss \<Rightarrow> (c # s) # ss
            | [] \<Rightarrow> [[c]]))"

text \<open>
  The pattern \<^verbatim>\<open>/torrents/:hash/contents/:indices/\<close> followed by \<^verbatim>\<open>data\<close> or
  \<^verbatim>\<open>subtitles\<close>: the two parameters as they stand in the path, each of one
  character at least, and the route.
\<close>

fun contentPattern :: "string list \<Rightarrow> (content_kind \<times> string \<times> string) option" where
  "contentPattern [e, a, h, b, i, c] =
     (if e = [] \<and> lower a = ''torrents'' \<and> h \<noteq> [] \<and> lower b = ''contents'' \<and> i \<noteq> [] then
        (if lower c = ''data'' then Some (Data, h, i)
         else if lower c = ''subtitles'' then Some (Subtitles, h, i)
         else None)
      else None)"
| "contentPattern [e, a, h, b, i, c, t] =
     (if t = [] then contentPattern [e, a, h, b, i, c] else None)"
| "contentPattern _ = None"

text \<open>
  A layer is matched on the path first, and its parameters are decoded then; a
  parameter that cannot be decoded is an error of status 400, whatever the method. Only
  then is the method looked at: \<^verbatim>\<open>router.get\<close> serves GET and HEAD.
\<close>

datatype route_match = NoMatch | BadParam | Match content_kind string string

definition matchContentRoute :: "(string \<Rightarrow> string option) \<Rightarrow> http_method \<Rightarrow> string \<Rightarrow> route_match" where
  "matchContentRoute decode m p =
     (case contentPattern (path_segments p) of
        None \<Rightarrow> NoMatch
      | Some (kind, h, i) \<Rightarrow>
          (case decode h of
             None \<Rightarrow> BadParam
           | Some hash \<Rightarrow>
               (case decode i of
                  None \<Rightarrow> BadParam
                | Some indices \<Rightarrow>
                    if m = GET \<or> m = HEAD then Match kind hash indices else NoMatch)))"

text \<open>\<^verbatim>\<open>router.use('/auth', authRoutes)\<close> (line 27) takes every path below \<^verbatim>\<open>/auth\<close>.\<close>

definition isPublic :: "request \<Rightarrow> bool" where
  "isPublic req =
     (case path_segments (req_path req) of
        e # a # _ \<Rightarrow> e = [] \<and> lower a = ''auth''
      | _ \<Rightarrow> False)"

subsection \<open>The layers\<close>

definition windowMs :: nat where
  "windowMs = 5 * 60 * 1000"

definition maxHits :: nat where
  "maxHits = 100"

text \<open>The middleware of the router, to write down which of them a request went through.\<close>

datatype middleware =
    AuthRoutes
  | RateLimit content_kind
  | AuthenticateContentRequest
  | PassportAuthenticate
  | AppendUserServices

text \<open>
  A content route (lines 67 to 89): its limiter, then
  \<^verbatim>\<open>authenticateContentRequest\<close>, which runs only if the limiter called
  \<^verbatim>\<open>next()\<close>. Beside the result and the state, the middleware that ran, in order.
\<close>

definition contentRoutes ::
  "deps \<Rightarrow> nat \<Rightarrow> router_state \<Rightarrow> request \<Rightarrow> mw_result \<times> router_state \<times> middleware list" where
  "contentRoutes E now st req =
     (case matchContentRoute (decodeURIComponent E) (req_method req) (req_path req) of
        Match kind h i \<Rightarrow>
          (let req1 = req\<lparr>req_params := [(''hash'', h), (''indices'', i)]\<rparr> in
           case rateLimit windowMs maxHits now (limiterOf kind st) req1 of
             (Next req2, store) \<Rightarrow>
               (authenticateContentRequest (verifyToken E) (safeParse E) (getAuthToken E) req2,
                setLimiter kind store st, [RateLimit kind, AuthenticateContentRequest])
           | (Respond r, store) \<Rightarrow> (Respond r, setLimiter kind store st, [RateLimit kind])
           | (NextError e, store) \<Rightarrow> (NextError e, setLimiter kind store st, [RateLimit kind]))
      | BadParam \<Rightarrow> (NextError 400, st, [])
      | NoMatch \<Rightarrow> (Next req, st, []))"

text \<open>
  Line 92: \<^verbatim>\<open>passport.authenticate\<close> answers 401 when the strategy resolves no user,
  and otherwise sets \<^verbatim>\<open>req.user\<close>; then \<^verbatim>\<open>appendUserServices\<close> runs. What
  is left of the router (lines 94 to 283) is the business logic. An error passed to
  \<^verbatim>\<open>next\<close> leaves the router.
\<close>

datatype outcome = Done response | Business request | Raised nat

definition unauthorized :: response where
  "unauthorized = \<lparr>status = 401, body = Text ''Unauthorized''\<rparr>"

definition passportAuthenticate :: "deps \<Rightarrow> request \<Rightarrow> mw_result" where
  "passportAuthenticate E req =
     (case jwtStrategy E req of
        None \<Rightarrow> Respond unauthorized
      | Some user \<Rightarrow> Next (req\<lparr>req_user := Some user\<rparr>))"

definition sessionGate :: "deps \<Rightarrow> request \<Rightarrow> outcome \<times> middleware list" where
  "sessionGate E req =
     (case passportAuthenticate E req of
        Respond r \<Rightarrow> (Done r, [PassportAuthenticate])
      | NextError e \<Rightarrow> (Raised e, [PassportAuthenticate])
      | Next req1 \<Rightarrow>
          (case appendUserServices E req1 of
             Respond r \<Rightarrow> (Done r, [PassportAuthenticate, AppendUserServices])
           | NextError e \<Rightarrow> (Raised e, [PassportAuthenticate, AppendUserServices])
           | Next req2 \<Rightarrow> (Business req2, [PassportAuthenticate, AppendUserServices])))"

text \<open>
  The router, layer after layer. Each layer sets \<^verbatim>\<open>req.params\<close> to the parameters
  of its own path, so the parameters of a content route are gone again at line 92.
\<close>

definition apiRouter ::
  "deps \<Rightarrow> nat \<Rightarrow> router_state \<Rightarrow> request \<Rightarrow> outcome \<times> router_state \<times> middleware list" where
  "apiRouter E now st req =
     (case (if isPublic req then authRoutes E (req\<lparr>req_params := []\<rparr>) else None) of
        Some r \<Rightarrow> (Done r, st, [AuthRoutes])
      | None \<Rightarrow>
          (let entered = (if isPublic req then [AuthRoutes] else []) in
           case contentRoutes E now st req of
             (Respond r, st1, seen) \<Rightarrow> (Done r, st1, entered @ seen)
           | (NextError e, st1, seen) \<Rightarrow> (Raised e, st1, entered @ seen)
           | (Next req1, st1, seen) \<Rightarrow>
               (case sessionGate E (req1\<lparr>req_params := []\<rparr>) of
                  (out, seen2) \<Rightarrow> (out, st1, entered @ seen @ seen2))))"

text \<open>
  What the router answers to a content request that its limiter has let through: the
  answer of the session check to the request as the token check passes it on.
\<close>

definition afterLimiter :: "deps \<Rightarrow> request \<Rightarrow> outcome" where
  "afterLimiter E req =
     (case matchContentRoute (decodeURIComponent E) (req_method req) (req_path req) of
        Match kind h i \<Rightarrow>
          (case authenticateContentRequest (verifyToken E) (safeParse E) (getAuthToken E)
                  (req\<lparr>req_params := [(''hash'', h), (''indices'', i)]\<rparr>) of
             Respond r \<Rightarrow> Done r
           | NextError e \<Rightarrow> Raised e
           | Next req1 \<Rightarrow> fst (sessionGate E (req1\<lparr>req_params := []\<rparr>)))
      | BadParam \<Rightarrow> Raised 400
      | NoMatch \<Rightarrow> fst (sessionGate E (req\<lparr>req_params := []\<rparr>)))"

text \<open>
  Requests served one after the other, each with its arrival time in milliseconds: for
  each the answer and the middleware it went through.
\<close>

fun serve ::
  "deps \<Rightarrow> router_state \<Rightarrow> (nat \<times> request) list \<Rightarrow> (outcome \<times> middleware list) list \<times> router_state" where
  "serve E st [] = ([], st)"
| "serve E st ((now, req) # rest) =
     (let step = apiRouter E now st req;
          later = serve E (fst (snd step)) rest
      in ((fst step, snd (snd step)) # fst later, snd later))"

text \<open>A request of the given client to the given content route.\<close>

definition isHit :: "deps \<Rightarrow> content_kind \<Rightarrow> string \<Rightarrow> request \<Rightarrow> bool" where
  "isHit E kind key r =
     (req_ip r = key \<and>
      (case matchContentRoute (decodeURIComponent E) (req_method r) (req_path r) of
         Match k _ _ \<Rightarrow> k = kind
       | _ \<Rightarrow> False))"

text \<open>How many of the requests up to and with the \<open>j\<close>-th are such requests.\<close>

definition hitsUpTo :: "deps \<Rightarrow> content_kind \<Rightarrow> string \<Rightarrow> (nat \<times> request) list \<Rightarrow> nat \<Rightarrow> nat" where
  "hitsUpTo E kind key reqs j = length (filter (\<lambda>tr. isHit E kind key (snd tr)) (take (Suc j) reqs))"

section \<open>The path guard\<close>

text \<open>
  Modelled from the spec: \<^verbatim>\<open>sanitizePath\<close> and \<^verbatim>\<open>isAllowedPath\<close> of
  \<^verbatim>\<open>util/fileUtil\<close>, a module that the router imports. Sanitizing resolves
  relative segments and both separators into one absolute, normalized form: an input
  that does not start with a separator is taken below the working directory; empty and
  \<^verbatim>\<open>.\<close> segments are dropped; \<^verbatim>\<open>..\<close> drops the segment before it and stays at
  the root. A resolved path is allowed when it is a root of the allow-list or lies below
  one, both in normalized form.
\<close>

definition is_sep :: "char \<Rightarrow> bool" where
  "is_sep c = (c = CHR ''/'' \<or> c = CHR 0x5C)"

fun split_path :: "string \<Rightarrow> string list" where
  "split_path [] = [[]]"
| "split_path (c # cs) =
     (if is_sep c then [] # split_path cs
      else (case split_path cs of
              s # ss \<Rightarrow> (c # s) # ss
            | [] \<Rightarrow> [[c]]))"

fun resolve_segments :: "string list \<Rightarrow> string list \<Rightarrow> string list" where
  "resolve_segments acc [] = rev acc"
| "resolve_segments acc (s # ss) =
     (if s = [] \<or> s = ''.'' then resolve_segments acc ss
      else if s = ''..'' then resolve_segments (tl acc) ss
      else resolve_segments (s # acc) ss)"

fun join_segments :: "string list \<Rightarrow> string" where
  "join_segments [] = []"
| "join_segments (s # ss) = CHR ''/'' # s @ join_segments ss"

definition join_path :: "string list \<Rightarrow> string" where
  "join_path segs = (if segs = [] then ''/'' else join_segments segs)"

definition normal_segments :: "string \<Rightarrow> string list" where
  "normal_segments p = resolve_segments [] (split_path p)"

definition is_absolute :: "string \<Rightarrow> bool" where
  "is_absolute p = (case p of [] \<Rightarrow> False | c # _ \<Rightarrow> is_sep c)"

text \<open>
  Modelled from the spec: \<^verbatim>\<open>sanitizePath\<close>, given the working directory against
  which a relative input is resolved.
\<close>

definition sanitizePath :: "string \<Rightarrow> string \<Rightarrow> string" where
  "sanitizePath cwd input =
     join_path (normal_segments (if is_absolute input then input else cwd @ ''/'' @ input))"

text \<open>
  Modelled from the spec: \<^verbatim>\<open>isAllowedPath\<close>, given the roots of the allow-list.
\<close>

definition isAllowedPath :: "string list \<Rightarrow> string \<Rightarrow> bool" where
  "isAllowedPath allowedPaths resolvedPath =
     list_ex (\<lambda>root. prefix (normal_segments root) (normal_segments resolvedPath)) allowedPaths"

text \<open>A segment of a normalized path: not empty, not a dot segment, free of separators.\<close>

definition clean_segment :: "string \<Rightarrow> bool" where
  "clean_segment s = (s \<noteq> [] \<and> s \<noteq> ''.'' \<and> s \<noteq> ''..'' \<and> list_all (\<lambda>c. \<not> is_sep c) s)"

section \<open>The directory listing\<close>

text \<open>
  The handler of \<^verbatim>\<open>GET /directory-list\<close> (lines 119 to 159). The file system is what
  \<^verbatim>\<open>fs.readdirSync\<close>, \<^verbatim>\<open>fs.existsSync\<close> and \<^verbatim>\<open>fs.statSync(p).isDirectory()\<close>
  answer; the first and the last can throw. Every call is recorded, in order.
  \<^verbatim>\<open>path.join\<close> and \<^verbatim>\<open>path.sep\<close> are the platform's. \<^verbatim>\<open>fileNotFoundError()\<close>
  and \<^verbatim>\<open>accessDeniedError()\<close> of \<^verbatim>\<open>util/fileUtil\<close> give an error whose
  \<^verbatim>\<open>code\<close> and \<^verbatim>\<open>message\<close> the handler copies.
\<close>

datatype fs_error = ENOENT | ENOTDIR | EACCES

datatype fs_call = Readdir string | Exists string | Stat string

record filesystem =
  readdirSync :: "string \<Rightarrow> fs_error + string list"
  existsSync :: "string \<Rightarrow> bool"
  statIsDirectory :: "string \<Rightarrow> fs_error + bool"

record app_error =
  code :: string
  message :: string

record file_env =
  cwd :: string
  allowedPaths :: "string list"
  fileNotFoundError :: app_error
  accessDeniedError :: app_error
  path_join :: "string \<Rightarrow> string \<Rightarrow> string"
  path_sep :: string

datatype handled = Sent response | Thrown fs_error

definition error_body :: "app_error \<Rightarrow> body" where
  "error_body e = Json (JObj [(''code'', JStr (code e)), (''message'', JStr (message e))])"

text \<open>The callback of \<^verbatim>\<open>forEach\<close> over the entries (lines 138 to 147).\<close>

fun classifyItems ::
  "file_env \<Rightarrow> filesystem \<Rightarrow> string \<Rightarrow> string list \<Rightarrow> string list \<Rightarrow> string list \<Rightarrow> fs_call list
     \<Rightarrow> (fs_error + string list \<times> string list) \<times> fs_call list" where
  "classifyItems F fs resolvedPath [] directories files calls = (Inr (directories, files), calls)"
| "classifyItems F fs resolvedPath (item # items) directories files calls =
     (let joinedPath = path_join F resolvedPath item in
      if existsSync fs joinedPath then
        (case statIsDirectory fs joinedPath of
           Inl e \<Rightarrow> (Inl e, calls @ [Exists joinedPath, Stat joinedPath])
         | Inr isDir \<Rightarrow>
             if isDir then
               classifyItems F fs resolvedPath items (directories @ [item]) files
                 (calls @ [Exists joinedPath, Stat joinedPath])
             else
               classifyItems F fs resolvedPath items directories (files @ [item])
                 (calls @ [Exists joinedPath, Stat joinedPath]))
      else classifyItems F fs resolvedPath items directories files (calls @ [Exists joinedPath]))"

text \<open>
  The test of line 149, \<^verbatim>\<open>/^.{0,}:?(\/|\\){1,1}\S{1,}/\<close>: some separator is followed
  by a character that is not white space, and no line terminator comes before it.
  Characters are code units below 256.
\<close>

definition line_terminator :: "char \<Rightarrow> bool" where
  "line_terminator c = (c = CHR 0x0A \<or> c = CHR 0x0D)"

definition white_space :: "char \<Rightarrow> bool" where
  "white_space c = (c = CHR 0x09 \<or> c = CHR 0x0A \<or> c = CHR 0x0B \<or> c = CHR 0x0C \<or> c = CHR 0x0D
                    \<or> c = CHR 0x20 \<or> c = CHR 0xA0)"

fun hasParent :: "string \<Rightarrow> bool" where
  "hasParent [] = False"
| "hasParent (c # cs) =
     ((is_sep c \<and> (case cs of [] \<Rightarrow> False | d # _ \<Rightarrow> \<not> white_space d))
      \<or> (\<not> line_terminator c \<and> hasParent cs))"

definition directoryList :: "file_env \<Rightarrow> filesystem \<Rightarrow> request \<Rightarrow> handled \<times> fs_call list" where
  "directoryList F fs req =
     (case query_value ''path'' req of
        JStr inputPath \<Rightarrow>
          if inputPath = [] then
            (Sent \<lparr>status = 404, body = error_body (fileNotFoundError F)\<rparr>, [])
          else
            (let resolvedPath = sanitizePath (cwd F) inputPath in
             if \<not> isAllowedPath (allowedPaths F) resolvedPath then
               (Sent \<lparr>status = 403, body = error_body (accessDeniedError F)\<rparr>, [])
             else
               (case readdirSync fs resolvedPath of
                  Inl e \<Rightarrow> (Thrown e, [Readdir resolvedPath])
                | Inr items \<Rightarrow>
                    (case classifyItems F fs resolvedPath items [] [] [Readdir resolvedPath] of
                       (Inl e, calls) \<Rightarrow> (Thrown e, calls)
                     | (Inr (directories, files), calls) \<Rightarrow>
                         (Sent \<lparr>status = 200,
                                body = Json (JObj [(''directories'', JArr (map JStr directories)),
                                                   (''files'', JArr (map JStr files)),
                                                   (''hasParent'', JBool (hasParent resolvedPath)),
                                                   (''path'', JStr resolvedPath),
                                                   (''separator'', JStr (path_sep F))])\<rparr>,
                          calls))))
      | _ \<Rightarrow> (Sent \<lparr>status = 404, body = error_body (fileNotFoundError F)\<rparr>, []))"

section \<open>History, notifications and settings\<close>

text \<open>
  The handlers of lines 170 to 218. \<^verbatim>\<open>req.services\<close> may be missing, and then nothing
  is sent. A service call is a promise: it rejects (\<open>Inl\<close>) or resolves (\<open>Inr\<close>).
  The rejection of the notification service is an \<^verbatim>\<open>Error\<close>, of which the handler
  reads the message.
\<close>

record js_error =
  error_name :: string
  error_message :: string

record services =
  getHistory :: "(string \<times> jsvalue) list \<Rightarrow> jsvalue + jsvalue"
  getNotifications :: "(string \<times> jsvalue) list \<Rightarrow> js_error + jsvalue"
  clearNotifications :: "js_error + unit"
  settingGet :: "string option \<Rightarrow> jsvalue + jsvalue"
  settingSet :: "jsvalue \<Rightarrow> jsvalue + jsvalue"

definition historyHandler :: "services option \<Rightarrow> request \<Rightarrow> response option" where
  "historyHandler svc req =
     (case svc of
        None \<Rightarrow> None
      | Some s \<Rightarrow>
          (case getHistory s (req_query req) of
             Inr snapshot \<Rightarrow> Some \<lparr>status = 200, body = Json snapshot\<rparr>
           | Inl err \<Rightarrow> Some \<lparr>status = 500, body = Json err\<rparr>))"

definition notificationsHandler :: "services option \<Rightarrow> request \<Rightarrow> response option" where
  "notificationsHandler svc req =
     (case svc of
        None \<Rightarrow> None
      | Some s \<Rightarrow>
          (case getNotifications s (req_query req) of
             Inr notifications \<Rightarrow> Some \<lparr>status = 200, body = Json notifications\<rparr>
           | Inl err \<Rightarrow> Some \<lparr>status = 500, body = Json (JObj [(''message'', JStr (error_message err))])\<rparr>))"

definition clearNotificationsHandler :: "services option \<Rightarrow> request \<Rightarrow> response option" where
  "clearNotificationsHandler svc req =
     (case svc of
        None \<Rightarrow> None
      | Some s \<Rightarrow>
          (case clearNotifications s of
             Inr _ \<Rightarrow> Some \<lparr>status = 200, body = NoBody\<rparr>
           | Inl err \<Rightarrow> Some \<lparr>status = 500, body = Json (JObj [(''message'', JStr (error_message err))])\<rparr>))"

text \<open>
  The settings routes (lines 228 to 283) answer through the callback that
  \<^verbatim>\<open>getResponseFn(res)\<close> of \<^verbatim>\<open>util/ajaxUtil\<close> builds: it is called with the
  settings, or with null and the error.
\<close>

type_synonym responder = "jsvalue option \<Rightarrow> jsvalue option \<Rightarrow> response"

definition settled :: "responder \<Rightarrow> jsvalue + jsvalue \<Rightarrow> response" where
  "settled callback result =
     (case result of
        Inr settings \<Rightarrow> callback (Some settings) None
      | Inl err \<Rightarrow> callback None (Some err))"

definition getSettingsHandler :: "responder \<Rightarrow> services option \<Rightarrow> request \<Rightarrow> response option" where
  "getSettingsHandler callback svc req =
     (case svc of
        None \<Rightarrow> None
      | Some s \<Rightarrow> Some (settled callback (settingGet s None)))"

definition getSettingHandler :: "responder \<Rightarrow> services option \<Rightarrow> request \<Rightarrow> response option" where
  "getSettingHandler callback svc req =
     (case svc of
        None \<Rightarrow> None
      | Some s \<Rightarrow> Some (settled callback (settingGet s (map_of (req_params req) ''property''))))"

definition patchSettingsHandler :: "responder \<Rightarrow> services option \<Rightarrow> request \<Rightarrow> response option" where
  "patchSettingsHandler callback svc req =
     (case svc of
        None \<Rightarrow> None
      | Some s \<Rightarrow> Some (settled callback (settingSet s (req_body req))))"

text \<open>The shape \<^verbatim>\<open>{code: string, message: string}\<close> of a JSON body.\<close>

fun has_error_shape :: "body \<Rightarrow> bool" where
  "has_error_shape (Json v) =
     (typeof (get_prop ''code'' v) = StringT \<and> typeof (get_prop ''message'' v) = StringT)"
| "has_error_shape _ = False"

section \<open>A concrete deployment\<close>

text \<open>
  The first scenario of the specification: the token \<^verbatim>\<open>T\<close> decodes to bob's grant on
  hash \<^verbatim>\<open>abc\<close>, indices \<^verbatim>\<open>0-1\<close>, issued at 1000. A session credential is
  written \<^verbatim>\<open>jwt:\<close>, the user's name, \<^verbatim>\<open>@\<close> and a mark of the issuance time.
\<close>

definition scenario_payload :: jsvalue where
  "scenario_payload = JObj [(''username'', JStr ''bob''), (''hash'', JStr ''abc''),
                            (''indices'', JStr ''0-1''), (''iat'', JNum 1000)]"

definition scenario_verifyToken :: verifier where
  "scenario_verifyToken token =
     (if token = ''T'' then Inr scenario_payload
      else if token = ''session'' then Inr (JObj [(''username'', JStr ''bob''), (''iat'', JNum 1000)])
      else if token = ''old'' then Inl Expired
      else if token = ''forged'' then Inl BadSignature
      else Inl MalformedToken)"

definition scenario_getAuthToken :: signer where
  "scenario_getAuthToken name iat =
     ''jwt:'' @ name @ (if iat = JNum 1000 then ''@1000'' else ''@later'')"

definition scenario_jwtStrategy :: "request \<Rightarrow> string option" where
  "scenario_jwtStrategy req =
     (case map_of (req_cookies req) ''jwt'' of
        Some t \<Rightarrow> if take 4 t = ''jwt:'' then Some (takeWhile (\<lambda>c. c \<noteq> CHR ''@'') (drop 4 t)) else None
      | None \<Rightarrow> None)"

text \<open>Decoding knows the escape of the hyphen and refuses every other one.\<close>

definition scenario_decode :: "string \<Rightarrow> string option" where
  "scenario_decode s =
     (if s = ''0%2D1'' then Some ''0-1''
      else if CHR ''%'' \<in> set s then None
      else Some s)"

definition scenario_deps :: deps where
  "scenario_deps = \<lparr>verifyToken = scenario_verifyToken,
                     safeParse = contentTokenSchema_safeParse,
                     getAuthToken = scenario_getAuthToken,
                     authRoutes = (\<lambda>_. None),
                     jwtStrategy = scenario_jwtStrategy,
                     appendUserServices = Next,
                     decodeURIComponent = scenario_decode\<rparr>"

text \<open>
  The third scenario: the allow-list holds \<^verbatim>\<open>/data/downloads\<close>, which has a
  directory, a file and an entry that is gone by the time it is looked at.
\<close>

definition scenario_files :: file_env where
  "scenario_files =
     \<lparr>cwd = ''/srv/flood'', allowedPaths = [''/data/downloads''],
      fileNotFoundError = \<lparr>code = ''FileNotFoundError'', message = ''No such file or directory''\<rparr>,
      accessDeniedError = \<lparr>code = ''AccessDeniedError'', message = ''Permission denied''\<rparr>,
      path_join = (\<lambda>dir item. dir @ ''/'' @ item), path_sep = ''/''\<rparr>"

definition scenario_fs :: filesystem where
  "scenario_fs =
     \<lparr>readdirSync = (\<lambda>p. if p = ''/data/downloads'' then Inr [''movies'', ''notes.txt'', ''gone'']
                          else Inl ENOENT),
      existsSync = (\<lambda>p. p = ''/data/downloads/movies'' \<or> p = ''/data/downloads/notes.txt''),
      statIsDirectory = (\<lambda>p. if p = ''/data/downloads/movies'' then Inr True
                              else if p = ''/data/downloads/notes.txt'' then Inr False
                              else Inl ENOENT)\<rparr>"

text \<open>Services whose store is closed: every call rejects.\<close>

definition scenario_services :: services where
  "scenario_services =
     \<lparr>getHistory = (\<lambda>_. Inl (JStr ''store closed'')),
      getNotifications = (\<lambda>_. Inl \<lparr>error_name = ''Error'', error_message = ''store closed''\<rparr>),
      clearNotifications = Inl \<lparr>error_name = ''Error'', error_message = ''store closed''\<rparr>,
      settingGet = (\<lambda>_. Inl (JStr ''store closed'')),
      settingSet = (\<lambda>_. Inl (JStr ''store closed''))\<rparr>"

definition scenario_request :: "string \<Rightarrow> (string \<times> jsvalue) list \<Rightarrow> (string \<times> string) list \<Rightarrow> request" where
  "scenario_request p q c =
     \<lparr>req_method = GET, req_path = p, req_query = q, req_params = [], req_cookies = c,
      req_body = JUndefined, req_ip = ''10.0.0.7'', req_user = None\<rparr>"

text \<open>
  Traffic for the budget: bob's link is fetched once, another client asks, the link is
  fetched 99 times more, then its subtitles, then the link again, its path written
  otherwise.
\<close>

definition scenario_traffic :: "(nat \<times> request) list" where
  "scenario_traffic =
     (0, scenario_request ''/torrents/abc/contents/0-1/data'' [(''token'', JStr ''T'')] [])
     # (1, (scenario_request ''/torrents/abc/contents/0-1/data'' [] [])\<lparr>req_ip := ''10.0.0.8''\<rparr>)
     # replicate 99 (2, scenario_request ''/torrents/abc/contents/0-1/data'' [(''token'', JStr ''T'')] [])
     @ [(3, scenario_request ''/torrents/abc/contents/0-1/subtitles'' [(''token'', JStr ''T'')] []),
        (4, scenario_request ''/Torrents/abc/Contents/0-1/Data/'' [(''token'', JStr ''T'')] [])]"

section \<open>The capability grant\<close>

lemma typeof_string: "typeof v = StringT \<longleftrightarrow> (\<exists>s. v = JStr s)"
  by (cases v) auto

lemma typeof_number: "typeof v = NumberT \<longleftrightarrow> (\<exists>n. v = JNum n)"
  by (cases v) auto

lemma contentGrant_Some:
  "contentGrant vt sp req = Some (name, iat) \<longleftrightarrow>
     (\<exists>token payload data h i.
        query_value ''token'' req = JStr token \<and> token \<noteq> [] \<and>
        vt token = Inr payload \<and> not_nullish payload \<and> sp payload = Some data \<and>
        get_prop ''username'' data = JStr name \<and>
        get_prop ''hash'' data = JStr h \<and>
        get_prop ''indices'' data = JStr i \<and>
        get_prop ''iat'' data = iat \<and>
        param_value ''hash'' req = JStr h \<and>
        param_value ''indices'' req = JStr i)"
  unfolding contentGrant_def Let_def
  by (auto simp: typeof_string split: jsvalue.splits sum.splits option.splits if_splits)

lemma schema_Some:
  "contentTokenSchema_safeParse payload = Some data \<longleftrightarrow>
     (\<exists>name h i n.
        get_prop ''username'' payload = JStr name \<and>
        get_prop ''hash'' payload = JStr h \<and>
        get_prop ''indices'' payload = JStr i \<and>
        get_prop ''iat'' payload = JNum n \<and>
        data = JObj [(''username'', JStr name), (''hash'', JStr h), (''indices'', JStr i), (''iat'', JNum n)])"
  unfolding contentTokenSchema_safeParse_def
  by (auto simp: typeof_string typeof_number)

lemma contentGrant_schema:
  "contentGrant vt contentTokenSchema_safeParse req = Some (name, iat) \<longleftrightarrow>
     (\<exists>token payload h i n.
        query_value ''token'' req = JStr token \<and> token \<noteq> [] \<and>
        vt token = Inr payload \<and>
        get_prop ''username'' payload = JStr name \<and>
        get_prop ''hash'' payload = JStr h \<and>
        get_prop ''indices'' payload = JStr i \<and>
        get_prop ''iat'' payload = JNum n \<and> iat = JNum n \<and>
        param_value ''hash'' req = JStr h \<and>
        param_value ''indices'' req = JStr i)"
  (is "?L \<longleftrightarrow> ?R")
proof
  assume ?L
  then show ?R
    unfolding contentGrant_Some schema_Some by (elim exE conjE) (simp, blast)
next
  assume ?R
  then obtain token payload h i n where
    tok: "query_value ''token'' req = JStr token" "token \<noteq> []" "vt token = Inr payload"
    and fields: "get_prop ''username'' payload = JStr name" "get_prop ''hash'' payload = JStr h"
      "get_prop ''indices'' payload = JStr i" "get_prop ''iat'' payload = JNum n" "iat = JNum n"
    and route: "param_value ''hash'' req = JStr h" "param_value ''indices'' req = JStr i"
    by blast
  from fields(1) have nn: "not_nullish payload"
    by (cases payload) simp_all
  have parsed: "contentTokenSchema_safeParse payload =
      Some (JObj [(''username'', JStr name), (''hash'', JStr h), (''indices'', JStr i), (''iat'', JNum n)])"
    using fields by (simp add: contentTokenSchema_safeParse_def)
  show ?L
    unfolding contentGrant_def Let_def using tok nn parsed route fields(5) by simp
qed

lemma query_value_cookies: "query_value k (req\<lparr>req_cookies := c\<rparr>) = query_value k req"
  by (simp add: query_value_def)

lemma param_value_cookies: "param_value k (req\<lparr>req_cookies := c\<rparr>) = param_value k req"
  by (simp add: param_value_def)

lemma contentGrant_cookies:
  "contentGrant vt sp (req\<lparr>req_cookies := c\<rparr>) = contentGrant vt sp req"
  unfolding contentGrant_def query_value_cookies param_value_cookies ..

lemma acr_Next: "\<exists>r. authenticateContentRequest vt sp gat req = Next r"
  by (simp add: authenticateContentRequest_def split: option.splits prod.splits)

lemma acr_no_grant:
  "contentGrant vt sp req = None \<Longrightarrow> authenticateContentRequest vt sp gat req = Next req"
  by (simp add: authenticateContentRequest_def)

lemma acr_grant:
  "contentGrant vt sp req = Some (name, iat) \<Longrightarrow>
   authenticateContentRequest vt sp gat req = Next (req\<lparr>req_cookies := [(''jwt'', gat name iat)]\<rparr>)"
  by (simp add: authenticateContentRequest_def)

text \<open>
  C1: on a content route, a grant is issued if and only if the query token is a non-empty
  string that \<^verbatim>\<open>verifyToken\<close> resolves (signature good, not expired) to a payload
  with string username, string hash, string indices and numeric issuance time, whose hash
  and indices are, as strings, exactly the \<^verbatim>\<open>hash\<close> and \<^verbatim>\<open>indices\<close> of the
  route. When all of this holds, \<^verbatim>\<open>authenticateContentRequest\<close> installs the
  synthesized credential as the cookie \<^verbatim>\<open>jwt\<close> (line 51); when any of it fails,
  it installs nothing and passes the request on as it came.
\<close>

theorem content_grant_iff:
  "(\<forall>token payload name h i n.
      query_value ''token'' req = JStr token \<and> token \<noteq> [] \<and>
      verify token = Inr payload \<and>
      get_prop ''username'' payload = JStr name \<and>
      get_prop ''hash'' payload = JStr h \<and>
      get_prop ''indices'' payload = JStr i \<and>
      get_prop ''iat'' payload = JNum n \<and>
      param_value ''hash'' req = JStr h \<and>
      param_value ''indices'' req = JStr i \<longrightarrow>
      contentGrant verify contentTokenSchema_safeParse req = Some (name, JNum n) \<and>
      authenticateContentRequest verify contentTokenSchema_safeParse sign req =
        Next (req\<lparr>req_cookies := [(''jwt'', sign name (JNum n))]\<rparr>))
   \<and> (\<not> (\<exists>token payload name h i n.
          query_value ''token'' req = JStr token \<and> token \<noteq> [] \<and>
          verify token = Inr payload \<and>
          get_prop ''username'' payload = JStr name \<and>
          get_prop ''hash'' payload = JStr h \<and>
          get_prop ''indices'' payload = JStr i \<and>
          get_prop ''iat'' payload = JNum n \<and>
          param_value ''hash'' req = JStr h \<and>
          param_value ''indices'' req = JStr i) \<longrightarrow>
      contentGrant verify contentTokenSchema_safeParse req = None \<and>
      authenticateContentRequest verify contentTokenSchema_safeParse sign req = Next req)"
proof (intro conjI allI impI)
  fix token payload name h i n
  assume a: "query_value ''token'' req = JStr token \<and> token \<noteq> [] \<and>
      verify token = Inr payload \<and>
      get_prop ''username'' payload = JStr name \<and>
      get_prop ''hash'' payload = JStr h \<and>
      get_prop ''indices'' payload = JStr i \<and>
      get_prop ''iat'' payload = JNum n \<and>
      param_value ''hash'' req = JStr h \<and>
      param_value ''indices'' req = JStr i"
  then show g: "contentGrant verify contentTokenSchema_safeParse req = Some (name, JNum n)"
    unfolding contentGrant_schema by blast
  then show "authenticateContentRequest verify contentTokenSchema_safeParse sign req =
        Next (req\<lparr>req_cookies := [(''jwt'', sign name (JNum n))]\<rparr>)"
    by (rule acr_grant)
next
  assume none: "\<not> (\<exists>token payload name h i n.
          query_value ''token'' req = JStr token \<and> token \<noteq> [] \<and>
          verify token = Inr payload \<and>
          get_prop ''username'' payload = JStr name \<and>
          get_prop ''hash'' payload = JStr h \<and>
          get_prop ''indices'' payload = JStr i \<and>
          get_prop ''iat'' payload = JNum n \<and>
          param_value ''hash'' req = JStr h \<and>
          param_value ''indices'' req = JStr i)"
  show g: "contentGrant verify contentTokenSchema_safeParse req = None"
  proof (cases "contentGrant verify contentTokenSchema_safeParse req")
    case None
    then show ?thesis .
  next
    case (Some g)
    obtain name iat where "g = (name, iat)" by (cases g)
    with Some have "contentGrant verify contentTokenSchema_safeParse req = Some (name, iat)" by simp
    then have "\<exists>token payload name h i n.
          query_value ''token'' req = JStr token \<and> token \<noteq> [] \<and>
          verify token = Inr payload \<and>
          get_prop ''username'' payload = JStr name \<and>
          get_prop ''hash'' payload = JStr h \<and>
          get_prop ''indices'' payload = JStr i \<and>
          get_prop ''iat'' payload = JNum n \<and>
          param_value ''hash'' req = JStr h \<and>
          param_value ''indices'' req = JStr i"
      unfolding contentGrant_schema by blast
    with none show ?thesis by contradiction
  qed
  then show "authenticateContentRequest verify contentTokenSchema_safeParse sign req = Next req"
    by (rule acr_no_grant)
qed

lemmas scenario_defs = scenario_files_def scenario_fs_def scenario_services_def scenario_payload_def
  scenario_verifyToken_def scenario_getAuthToken_def scenario_jwtStrategy_def scenario_decode_def
  scenario_deps_def scenario_request_def query_value_def param_value_def

theorem content_grant_iff_witness:
  "authenticateContentRequest scenario_verifyToken contentTokenSchema_safeParse scenario_getAuthToken
     ((scenario_request [] [(''token'', JStr ''T'')] [(''jwt'', ''jwt:alice@later'')])
        \<lparr>req_params := [(''hash'', ''abc''), (''indices'', ''0-1'')]\<rparr>)
   = Next ((scenario_request [] [(''token'', JStr ''T'')] [(''jwt'', ''jwt:bob@1000'')])
        \<lparr>req_params := [(''hash'', ''abc''), (''indices'', ''0-1'')]\<rparr>)
   \<and> contentGrant scenario_verifyToken contentTokenSchema_safeParse
     ((scenario_request [] [(''token'', JStr ''T'')] [(''jwt'', ''jwt:alice@later'')])
        \<lparr>req_params := [(''hash'', ''xyz''), (''indices'', ''0-1'')]\<rparr>) = None
   \<and> authenticateContentRequest scenario_verifyToken contentTokenSchema_safeParse scenario_getAuthToken
     ((scenario_request [] [(''token'', JStr ''T'')] [(''jwt'', ''jwt:alice@later'')])
        \<lparr>req_params := [(''hash'', ''xyz''), (''indices'', ''0-1'')]\<rparr>)
   = Next ((scenario_request [] [(''token'', JStr ''T'')] [(''jwt'', ''jwt:alice@later'')])
        \<lparr>req_params := [(''hash'', ''xyz''), (''indices'', ''0-1'')]\<rparr>)"
  using
    content_grant_iff [of
      "(scenario_request [] [(''token'', JStr ''T'')] [(''jwt'', ''jwt:alice@later'')])
        \<lparr>req_params := [(''hash'', ''abc''), (''indices'', ''0-1'')]\<rparr>"
      scenario_verifyToken scenario_getAuthToken]
    content_grant_iff [of
      "(scenario_request [] [(''token'', JStr ''T'')] [(''jwt'', ''jwt:alice@later'')])
        \<lparr>req_params := [(''hash'', ''xyz''), (''indices'', ''0-1'')]\<rparr>"
      scenario_verifyToken scenario_getAuthToken]
  by (simp add: scenario_defs)

text \<open>
  C3: on a full match the cookie installed is \<^verbatim>\<open>getAuthToken\<close> of the payload's
  username and of the payload's own issuance time; no clock is read.
\<close>

theorem synthesized_credential:
  assumes "query_value ''token'' req = JStr token" and "token \<noteq> []"
    and "verify token = Inr payload"
    and "get_prop ''username'' payload = JStr name"
    and "get_prop ''hash'' payload = JStr h"
    and "get_prop ''indices'' payload = JStr i"
    and "get_prop ''iat'' payload = JNum issued"
    and "param_value ''hash'' req = JStr h"
    and "param_value ''indices'' req = JStr i"
  shows "authenticateContentRequest verify contentTokenSchema_safeParse sign req =
           Next (req\<lparr>req_cookies := [(''jwt'', sign name (JNum issued))]\<rparr>)"
proof -
  have "contentGrant verify contentTokenSchema_safeParse req = Some (name, JNum issued)"
    unfolding contentGrant_schema using assms by blast
  then show ?thesis
    by (simp add: authenticateContentRequest_def)
qed

theorem synthesized_credential_witness:
  "authenticateContentRequest scenario_verifyToken contentTokenSchema_safeParse scenario_getAuthToken
     ((scenario_request [] [(''token'', JStr ''T'')] [(''jwt'', ''jwt:alice@later'')])
        \<lparr>req_params := [(''hash'', ''abc''), (''indices'', ''0-1'')]\<rparr>)
   = Next ((scenario_request [] [(''token'', JStr ''T'')] [(''jwt'', ''jwt:bob@1000'')])
        \<lparr>req_params := [(''hash'', ''abc''), (''indices'', ''0-1'')]\<rparr>)"
  using synthesized_credential [of
      "(scenario_request [] [(''token'', JStr ''T'')] [(''jwt'', ''jwt:alice@later'')])
        \<lparr>req_params := [(''hash'', ''abc''), (''indices'', ''0-1'')]\<rparr>"
      "''T''" scenario_verifyToken scenario_payload "''bob''" "''abc''" "''0-1''" 1000
      scenario_getAuthToken]
  by (simp add: scenario_defs)

text \<open>
  C7: whatever the query token is, \<^verbatim>\<open>authenticateContentRequest\<close> calls
  \<^verbatim>\<open>next()\<close> and answers nothing itself. A token that is absent or not a string, an
  empty one, one that \<^verbatim>\<open>verifyToken\<close> rejects (malformed, badly signed, expired),
  a payload the schema refuses and a payload for another hash or other indices all leave
  the request as it came, for the session check to decide.
\<close>

theorem token_check_never_rejects:
  "(\<exists>r. authenticateContentRequest verify parse sign req = Next r)
   \<and> (typeof (query_value ''token'' req) \<noteq> StringT \<longrightarrow>
        authenticateContentRequest verify parse sign req = Next req)
   \<and> (query_value ''token'' req = JStr [] \<longrightarrow>
        authenticateContentRequest verify parse sign req = Next req)
   \<and> (\<forall>token failure. query_value ''token'' req = JStr token \<and> verify token = Inl failure \<longrightarrow>
        authenticateContentRequest verify parse sign req = Next req)
   \<and> (\<forall>token payload. query_value ''token'' req = JStr token \<and> verify token = Inr payload \<and>
          parse payload = None \<longrightarrow>
        authenticateContentRequest verify parse sign req = Next req)
   \<and> (\<forall>token payload data. query_value ''token'' req = JStr token \<and> verify token = Inr payload \<and>
          parse payload = Some data \<and>
          (get_prop ''hash'' data \<noteq> param_value ''hash'' req \<or>
           get_prop ''indices'' data \<noteq> param_value ''indices'' req) \<longrightarrow>
        authenticateContentRequest verify parse sign req = Next req)"
proof (intro conjI allI impI)
  show "\<exists>r. authenticateContentRequest verify parse sign req = Next r"
    by (rule acr_Next)
next
  assume "typeof (query_value ''token'' req) \<noteq> StringT"
  then have "contentGrant verify parse req = None"
    by (cases "query_value ''token'' req") (simp_all add: contentGrant_def)
  then show "authenticateContentRequest verify parse sign req = Next req"
    by (rule acr_no_grant)
next
  assume "query_value ''token'' req = JStr []"
  then have "contentGrant verify parse req = None"
    by (simp add: contentGrant_def)
  then show "authenticateContentRequest verify parse sign req = Next req"
    by (rule acr_no_grant)
next
  fix token failure
  assume "query_value ''token'' req = JStr token \<and> verify token = Inl failure"
  then have "contentGrant verify parse req = None"
    by (simp add: contentGrant_def)
  then show "authenticateContentRequest verify parse sign req = Next req"
    by (rule acr_no_grant)
next
  fix token payload
  assume "query_value ''token'' req = JStr token \<and> verify token = Inr payload \<and> parse payload = None"
  then have "contentGrant verify parse req = None"
    by (simp add: contentGrant_def)
  then show "authenticateContentRequest verify parse sign req = Next req"
    by (rule acr_no_grant)
next
  fix token payload data
  assume "query_value ''token'' req = JStr token \<and> verify token = Inr payload \<and>
          parse payload = Some data \<and>
          (get_prop ''hash'' data \<noteq> param_value ''hash'' req \<or>
           get_prop ''indices'' data \<noteq> param_value ''indices'' req)"
  then have "contentGrant verify parse req = None"
    by (auto simp: contentGrant_def Let_def split: jsvalue.splits)
  then show "authenticateContentRequest verify parse sign req = Next req"
    by (rule acr_no_grant)
qed

theorem token_check_never_rejects_witness:
  "authenticateContentRequest scenario_verifyToken contentTokenSchema_safeParse scenario_getAuthToken
     ((scenario_request [] [] [(''jwt'', ''jwt:alice@later'')])\<lparr>req_params := [(''hash'', ''abc''), (''indices'', ''0-1'')]\<rparr>)
   = Next ((scenario_request [] [] [(''jwt'', ''jwt:alice@later'')])\<lparr>req_params := [(''hash'', ''abc''), (''indices'', ''0-1'')]\<rparr>)
  \<and> authenticateContentRequest scenario_verifyToken contentTokenSchema_safeParse scenario_getAuthToken
     ((scenario_request [] [(''token'', JStr [])] [])\<lparr>req_params := [(''hash'', ''abc''), (''indices'', ''0-1'')]\<rparr>)
   = Next ((scenario_request [] [(''token'', JStr [])] [])\<lparr>req_params := [(''hash'', ''abc''), (''indices'', ''0-1'')]\<rparr>)
  \<and> authenticateContentRequest scenario_verifyToken contentTokenSchema_safeParse scenario_getAuthToken
     ((scenario_request [] [(''token'', JStr ''old'')] [])\<lparr>req_params := [(''hash'', ''abc''), (''indices'', ''0-1'')]\<rparr>)
   = Next ((scenario_request [] [(''token'', JStr ''old'')] [])\<lparr>req_params := [(''hash'', ''abc''), (''indices'', ''0-1'')]\<rparr>)
  \<and> authenticateContentRequest scenario_verifyToken contentTokenSchema_safeParse scenario_getAuthToken
     ((scenario_request [] [(''token'', JStr ''session'')] [])\<lparr>req_params := [(''hash'', ''abc''), (''indices'', ''0-1'')]\<rparr>)
   = Next ((scenario_request [] [(''token'', JStr ''session'')] [])\<lparr>req_params := [(''hash'', ''abc''), (''indices'', ''0-1'')]\<rparr>)
  \<and> authenticateContentRequest scenario_verifyToken contentTokenSchema_safeParse scenario_getAuthToken
     ((scenario_request [] [(''token'', JStr ''T'')] [])\<lparr>req_params := [(''hash'', ''xyz''), (''indices'', ''0-1'')]\<rparr>)
   = Next ((scenario_request [] [(''token'', JStr ''T'')] [])\<lparr>req_params := [(''hash'', ''xyz''), (''indices'', ''0-1'')]\<rparr>)"
  using
    token_check_never_rejects [of scenario_verifyToken contentTokenSchema_safeParse scenario_getAuthToken
      "(scenario_request [] [] [(''jwt'', ''jwt:alice@later'')])\<lparr>req_params := [(''hash'', ''abc''), (''indices'', ''0-1'')]\<rparr>"]
    token_check_never_rejects [of scenario_verifyToken contentTokenSchema_safeParse scenario_getAuthToken
      "(scenario_request [] [(''token'', JStr [])] [])\<lparr>req_params := [(''hash'', ''abc''), (''indices'', ''0-1'')]\<rparr>"]
    token_check_never_rejects [of scenario_verifyToken contentTokenSchema_safeParse scenario_getAuthToken
      "(scenario_request [] [(''token'', JStr ''old'')] [])\<lparr>req_params := [(''hash'', ''abc''), (''indices'', ''0-1'')]\<rparr>"]
    token_check_never_rejects [of scenario_verifyToken contentTokenSchema_safeParse scenario_getAuthToken
      "(scenario_request [] [(''token'', JStr ''session'')] [])\<lparr>req_params := [(''hash'', ''abc''), (''indices'', ''0-1'')]\<rparr>"]
    token_check_never_rejects [of scenario_verifyToken contentTokenSchema_safeParse scenario_getAuthToken
      "(scenario_request [] [(''token'', JStr ''T'')] [])\<lparr>req_params := [(''hash'', ''xyz''), (''indices'', ''0-1'')]\<rparr>"]
  by (simp add: scenario_defs contentTokenSchema_safeParse_def)

section \<open>The session check\<close>

lemma contentRoutes_none:
  "matchContentRoute (decodeURIComponent E) (req_method req) (req_path req) = NoMatch \<Longrightarrow>
   contentRoutes E now st req = (Next req, st, [])"
  by (simp add: contentRoutes_def)

lemma contentRoutes_admitted:
  assumes "matchContentRoute (decodeURIComponent E) (req_method req) (req_path req) = Match kind h i"
    and "fst (rateLimit windowMs maxHits now (limiterOf kind st) (req\<lparr>req_params := [(''hash'', h), (''indices'', i)]\<rparr>))
           = Next (req\<lparr>req_params := [(''hash'', h), (''indices'', i)]\<rparr>)"
  shows "fst (contentRoutes E now st req) =
           authenticateContentRequest (verifyToken E) (safeParse E) (getAuthToken E)
             (req\<lparr>req_params := [(''hash'', h), (''indices'', i)]\<rparr>)"
  using assms
  by (cases "rateLimit windowMs maxHits now (limiterOf kind st) (req\<lparr>req_params := [(''hash'', h), (''indices'', i)]\<rparr>)")
     (simp add: contentRoutes_def Let_def)

lemma apiRouter_protected:
  "\<not> isPublic req \<Longrightarrow>
   fst (apiRouter E now st req) =
     (case fst (contentRoutes E now st req) of
        Respond r \<Rightarrow> Done r
      | NextError e \<Rightarrow> Raised e
      | Next r0 \<Rightarrow> fst (sessionGate E (r0\<lparr>req_params := []\<rparr>)))"
  by (cases "contentRoutes E now st req")
     (simp add: apiRouter_def split: mw_result.splits prod.splits)

lemma apiRouter_protected_trace:
  "\<not> isPublic req \<Longrightarrow>
   snd (snd (apiRouter E now st req)) =
     snd (snd (contentRoutes E now st req)) @
     (case fst (contentRoutes E now st req) of
        Next r0 \<Rightarrow> snd (sessionGate E (r0\<lparr>req_params := []\<rparr>))
      | _ \<Rightarrow> [])"
  by (cases "contentRoutes E now st req")
     (simp add: apiRouter_def split: mw_result.splits prod.splits)

lemma sessionGate_Business:
  "fst (sessionGate E r0) = Business r \<longleftrightarrow>
     (\<exists>user. jwtStrategy E r0 = Some user \<and> appendUserServices E (r0\<lparr>req_user := Some user\<rparr>) = Next r)"
  by (auto simp: sessionGate_def passportAuthenticate_def split: option.splits mw_result.splits)

lemma sessionGate_unauthorized:
  "jwtStrategy E r0 = None \<Longrightarrow> sessionGate E r0 = (Done unauthorized, [PassportAuthenticate])"
  by (simp add: sessionGate_def passportAuthenticate_def)

lemma sessionGate_first: "take 1 (snd (sessionGate E r0)) = [PassportAuthenticate]"
  by (simp add: sessionGate_def passportAuthenticate_def split: option.splits mw_result.splits)

text \<open>
  C2: a request outside \<^verbatim>\<open>/auth\<close> reaches the business logic only through the
  JWT strategy of line 92, run on the request as the content routes left it;
  \<^verbatim>\<open>passport.authenticate\<close> is then among the middleware the request went through.
  If the strategy resolves no user there, the answer is 401. A content request with a
  grant is no exception: what the router answers is what the session check answers on
  the request that carries the synthesized cookie.
\<close>

theorem session_verification_mandatory:
  assumes "\<not> isPublic req"
  shows "(\<forall>r. fst (apiRouter E now st req) = Business r \<longrightarrow>
            PassportAuthenticate \<in> set (snd (snd (apiRouter E now st req))) \<and>
            (\<exists>r0 user. fst (contentRoutes E now st req) = Next r0 \<and>
                        jwtStrategy E (r0\<lparr>req_params := []\<rparr>) = Some user \<and>
                        appendUserServices E (r0\<lparr>req_params := [], req_user := Some user\<rparr>) = Next r))
       \<and> (\<forall>r0. fst (contentRoutes E now st req) = Next r0 \<and>
                 jwtStrategy E (r0\<lparr>req_params := []\<rparr>) = None \<longrightarrow>
            fst (apiRouter E now st req) = Done unauthorized)
       \<and> (\<forall>kind h i name iat.
            matchContentRoute (decodeURIComponent E) (req_method req) (req_path req) = Match kind h i \<and>
            fst (rateLimit windowMs maxHits now (limiterOf kind st) (req\<lparr>req_params := [(''hash'', h), (''indices'', i)]\<rparr>))
              = Next (req\<lparr>req_params := [(''hash'', h), (''indices'', i)]\<rparr>) \<and>
            contentGrant (verifyToken E) (safeParse E) (req\<lparr>req_params := [(''hash'', h), (''indices'', i)]\<rparr>)
              = Some (name, iat) \<longrightarrow>
            fst (apiRouter E now st req) =
              fst (sessionGate E (req\<lparr>req_cookies := [(''jwt'', getAuthToken E name iat)],
                                      req_params := []\<rparr>)))"
proof (intro conjI allI impI)
  fix r
  assume b: "fst (apiRouter E now st req) = Business r"
  with assms obtain r0 where r0: "fst (contentRoutes E now st req) = Next r0"
    and sg: "fst (sessionGate E (r0\<lparr>req_params := []\<rparr>)) = Business r"
    by (auto simp: apiRouter_protected split: mw_result.splits)
  have "take 1 (snd (sessionGate E (r0\<lparr>req_params := []\<rparr>))) = [PassportAuthenticate]"
    by (rule sessionGate_first)
  then have "PassportAuthenticate \<in> set (snd (sessionGate E (r0\<lparr>req_params := []\<rparr>)))"
    by (cases "snd (sessionGate E (r0\<lparr>req_params := []\<rparr>))") auto
  then show "PassportAuthenticate \<in> set (snd (snd (apiRouter E now st req)))"
    using assms r0 by (simp add: apiRouter_protected_trace)
  from sg r0 show "\<exists>r0 user. fst (contentRoutes E now st req) = Next r0 \<and>
                        jwtStrategy E (r0\<lparr>req_params := []\<rparr>) = Some user \<and>
                        appendUserServices E (r0\<lparr>req_params := [], req_user := Some user\<rparr>) = Next r"
    by (auto simp: sessionGate_Business)
next
  fix r0
  assume "fst (contentRoutes E now st req) = Next r0 \<and> jwtStrategy E (r0\<lparr>req_params := []\<rparr>) = None"
  with assms show "fst (apiRouter E now st req) = Done unauthorized"
    by (simp add: apiRouter_protected sessionGate_unauthorized)
next
  fix kind h i name iat
  assume a: "matchContentRoute (decodeURIComponent E) (req_method req) (req_path req) = Match kind h i \<and>
            fst (rateLimit windowMs maxHits now (limiterOf kind st) (req\<lparr>req_params := [(''hash'', h), (''indices'', i)]\<rparr>))
              = Next (req\<lparr>req_params := [(''hash'', h), (''indices'', i)]\<rparr>) \<and>
            contentGrant (verifyToken E) (safeParse E) (req\<lparr>req_params := [(''hash'', h), (''indices'', i)]\<rparr>)
              = Some (name, iat)"
  then have "fst (contentRoutes E now st req) =
      Next (req\<lparr>req_params := [(''hash'', h), (''indices'', i)], req_cookies := [(''jwt'', getAuthToken E name iat)]\<rparr>)"
    by (simp add: contentRoutes_admitted acr_grant)
  with assms show "fst (apiRouter E now st req) =
              fst (sessionGate E (req\<lparr>req_cookies := [(''jwt'', getAuthToken E name iat)],
                                      req_params := []\<rparr>))"
    by (simp add: apiRouter_protected)
qed

lemmas match_defs = matchContentRoute_def isPublic_def lower_def ascii_lower_def

lemmas router_defs = apiRouter_def contentRoutes_def rateLimit_def windowMs_def maxHits_def
  initial_state_def sessionGate_def passportAuthenticate_def authenticateContentRequest_def
  contentGrant_def contentTokenSchema_safeParse_def unauthorized_def tooManyRequests_def Let_def

lemma scenario_not_public:
  "\<not> isPublic (scenario_request ''/torrents/abc/contents/0-1/data'' q c)"
  by (simp add: match_defs scenario_request_def)

lemma scenario_stale_secret:
  "fst (apiRouter (scenario_deps\<lparr>jwtStrategy := (\<lambda>_. None)\<rparr>) 0 initial_state
        (scenario_request ''/torrents/abc/contents/0-1/data'' [(''token'', JStr ''T'')] []))
      = Done unauthorized"
  by (simp add: scenario_defs match_defs router_defs)

lemma scenario_granted:
  "apiRouter scenario_deps 0 initial_state
        (scenario_request ''/torrents/abc/contents/0-1/data'' [(''token'', JStr ''T'')] [])
      = (Business ((scenario_request ''/torrents/abc/contents/0-1/data'' [(''token'', JStr ''T'')] [(''jwt'', ''jwt:bob@1000'')])
          \<lparr>req_user := Some ''bob''\<rparr>),
         initial_state\<lparr>dataLimiter := (\<lambda>_. None)(''10.0.0.7'' := Some \<lparr>windowStart = 0, count = 1\<rparr>)\<rparr>,
         [RateLimit Data, AuthenticateContentRequest, PassportAuthenticate, AppendUserServices])"
  by (simp add: scenario_defs match_defs router_defs)

lemma scenario_granted_capitals:
  "fst (apiRouter scenario_deps 0 initial_state
        (scenario_request ''/TORRENTS/abc/Contents/0%2D1/DATA/'' [(''token'', JStr ''T'')] []))
      = Business ((scenario_request ''/TORRENTS/abc/Contents/0%2D1/DATA/'' [(''token'', JStr ''T'')] [(''jwt'', ''jwt:bob@1000'')])
          \<lparr>req_user := Some ''bob''\<rparr>)"
  by (simp add: scenario_defs match_defs router_defs)

lemma scenario_other_hash:
  "fst (apiRouter scenario_deps 0 initial_state
        (scenario_request ''/torrents/xyz/contents/0-1/data'' [(''token'', JStr ''T'')] []))
      = Done unauthorized"
  by (simp add: scenario_defs match_defs router_defs)

text \<open>
  In the witness the token is rejected by the session check when the strategy accepts
  nothing, and serves bob otherwise, also when the path is written in capitals, ends with
  a slash and carries an escaped hyphen; on another hash there is no grant and, without a
  session cookie, the answer is 401.
\<close>

theorem session_verification_mandatory_witness:
  "\<not> isPublic (scenario_request ''/torrents/abc/contents/0-1/data'' [(''token'', JStr ''T'')] [])
   \<and> fst (apiRouter (scenario_deps\<lparr>jwtStrategy := (\<lambda>_. None)\<rparr>) 0 initial_state
        (scenario_request ''/torrents/abc/contents/0-1/data'' [(''token'', JStr ''T'')] []))
      = Done unauthorized
   \<and> fst (apiRouter scenario_deps 0 initial_state
        (scenario_request ''/torrents/abc/contents/0-1/data'' [(''token'', JStr ''T'')] []))
      = Business ((scenario_request ''/torrents/abc/contents/0-1/data'' [(''token'', JStr ''T'')] [(''jwt'', ''jwt:bob@1000'')])
          \<lparr>req_user := Some ''bob''\<rparr>)
   \<and> fst (apiRouter scenario_deps 0 initial_state
        (scenario_request ''/TORRENTS/abc/Contents/0%2D1/DATA/'' [(''token'', JStr ''T'')] []))
      = Business ((scenario_request ''/TORRENTS/abc/Contents/0%2D1/DATA/'' [(''token'', JStr ''T'')] [(''jwt'', ''jwt:bob@1000'')])
          \<lparr>req_user := Some ''bob''\<rparr>)
   \<and> fst (apiRouter scenario_deps 0 initial_state
        (scenario_request ''/torrents/xyz/contents/0-1/data'' [(''token'', JStr ''T'')] []))
      = Done unauthorized"
  using
    session_verification_mandatory [of
      "scenario_request ''/torrents/abc/contents/0-1/data'' [(''token'', JStr ''T'')] []"
      "scenario_deps\<lparr>jwtStrategy := (\<lambda>_. None)\<rparr>" 0 initial_state]
    session_verification_mandatory [of
      "scenario_request ''/torrents/abc/contents/0-1/data'' [(''token'', JStr ''T'')] []"
      scenario_deps 0 initial_state]
    session_verification_mandatory [of
      "scenario_request ''/TORRENTS/abc/Contents/0%2D1/DATA/'' [(''token'', JStr ''T'')] []"
      scenario_deps 0 initial_state]
    session_verification_mandatory [of
      "scenario_request ''/torrents/xyz/contents/0-1/data'' [(''token'', JStr ''T'')] []"
      scenario_deps 0 initial_state]
  by (simp add: scenario_not_public scenario_stale_secret scenario_granted scenario_granted_capitals
        scenario_other_hash)

text \<open>
  C10: on a full match \<^verbatim>\<open>authenticateContentRequest\<close> passes on a request whose
  cookies are the synthesized \<^verbatim>\<open>jwt\<close> alone, whatever cookies the client sent; if
  the JWT strategy resolves that credential to the user it was issued for, the user set
  on the request is the token's. Without a full match the request is passed on as it
  came.
\<close>

theorem capability_replaces_cookies:
  "(contentGrant verify parse req = Some (name, iat) \<longrightarrow>
      (\<forall>sent. authenticateContentRequest verify parse sign (req\<lparr>req_cookies := sent\<rparr>) =
                Next (req\<lparr>req_cookies := [(''jwt'', sign name iat)]\<rparr>)))
   \<and> (contentGrant verify parse req = Some (name, iat) \<and>
       jwtStrategy E (req\<lparr>req_cookies := [(''jwt'', sign name iat)]\<rparr>) = Some name \<longrightarrow>
      (\<forall>sent. \<exists>r. authenticateContentRequest verify parse sign (req\<lparr>req_cookies := sent\<rparr>) = Next r \<and>
                   passportAuthenticate E r = Next (r\<lparr>req_user := Some name\<rparr>)))
   \<and> (contentGrant verify parse req = None \<longrightarrow>
        authenticateContentRequest verify parse sign req = Next req)"
  by (simp add: acr_grant acr_no_grant contentGrant_cookies passportAuthenticate_def)

theorem capability_replaces_cookies_witness:
  "authenticateContentRequest scenario_verifyToken contentTokenSchema_safeParse scenario_getAuthToken
     ((scenario_request [] [(''token'', JStr ''T'')] [(''jwt'', ''jwt:alice@later''), (''theme'', ''dark'')])
        \<lparr>req_params := [(''hash'', ''abc''), (''indices'', ''0-1'')]\<rparr>)
   = Next ((scenario_request [] [(''token'', JStr ''T'')] [(''jwt'', ''jwt:bob@1000'')])
        \<lparr>req_params := [(''hash'', ''abc''), (''indices'', ''0-1'')]\<rparr>)
   \<and> passportAuthenticate scenario_deps ((scenario_request [] [(''token'', JStr ''T'')] [(''jwt'', ''jwt:bob@1000'')])
        \<lparr>req_params := [(''hash'', ''abc''), (''indices'', ''0-1'')]\<rparr>)
     = Next ((scenario_request [] [(''token'', JStr ''T'')] [(''jwt'', ''jwt:bob@1000'')])
        \<lparr>req_params := [(''hash'', ''abc''), (''indices'', ''0-1'')], req_user := Some ''bob''\<rparr>)
   \<and> authenticateContentRequest scenario_verifyToken contentTokenSchema_safeParse scenario_getAuthToken
     ((scenario_request [] [(''token'', JStr ''T'')] [(''jwt'', ''jwt:alice@later''), (''theme'', ''dark'')])
        \<lparr>req_params := [(''hash'', ''xyz''), (''indices'', ''0-1'')]\<rparr>)
   = Next ((scenario_request [] [(''token'', JStr ''T'')] [(''jwt'', ''jwt:alice@later''), (''theme'', ''dark'')])
        \<lparr>req_params := [(''hash'', ''xyz''), (''indices'', ''0-1'')]\<rparr>)"
  using
    capability_replaces_cookies [of scenario_verifyToken contentTokenSchema_safeParse
      "(scenario_request [] [(''token'', JStr ''T'')] [])\<lparr>req_params := [(''hash'', ''abc''), (''indices'', ''0-1'')]\<rparr>"
      "''bob''" "JNum 1000" scenario_getAuthToken scenario_deps]
    capability_replaces_cookies [of scenario_verifyToken contentTokenSchema_safeParse
      "(scenario_request [] [(''token'', JStr ''T'')] [(''jwt'', ''jwt:alice@later''), (''theme'', ''dark'')])
         \<lparr>req_params := [(''hash'', ''xyz''), (''indices'', ''0-1'')]\<rparr>"
      "''bob''" "JNum 1000" scenario_getAuthToken scenario_deps]
  by (simp add: scenario_defs router_defs)

section \<open>The request budget\<close>

lemma contentPattern_torrents:
  "contentPattern segs = Some x \<Longrightarrow> \<exists>e a rest. segs = e # a # rest \<and> lower a = ''torrents''"
  by (cases segs rule: contentPattern.cases) (auto split: if_splits)

lemma match_not_public:
  assumes "matchContentRoute decode (req_method req) (req_path req) = Match kind h i"
  shows "\<not> isPublic req"
proof -
  from assms obtain x where "contentPattern (path_segments (req_path req)) = Some x"
    by (auto simp: matchContentRoute_def split: option.splits)
  then obtain e a rest where "path_segments (req_path req) = e # a # rest" "lower a = ''torrents''"
    using contentPattern_torrents by blast
  then show ?thesis
    by (simp add: isPublic_def)
qed

lemma limiterOf_setLimiter [simp]: "limiterOf kind (setLimiter kind store st) = store"
  by (cases kind) simp_all

lemma limiterOf_setLimiter_other: "k \<noteq> kind \<Longrightarrow> limiterOf kind (setLimiter k store st) = limiterOf kind st"
  by (cases kind; cases k) simp_all

lemma rateLimit_live:
  assumes "store (req_ip req) = Some c" and "now < windowStart c + w"
  shows "rateLimit w m now store req =
           (if count c < m then Next req else Respond tooManyRequests,
            store(req_ip req := Some (c\<lparr>count := Suc (count c)\<rparr>)))"
  using assms by (auto simp: rateLimit_def Let_def)

lemma rateLimit_open:
  assumes "\<forall>c. store (req_ip req) = Some c \<longrightarrow> windowStart c + w \<le> now"
  shows "rateLimit w m now store req =
           (if 0 < m then Next req else Respond tooManyRequests,
            store(req_ip req := Some \<lparr>windowStart = now, count = 1\<rparr>))"
  using assms by (cases "store (req_ip req)") (auto simp: rateLimit_def Let_def)

lemma rateLimit_other: "k \<noteq> req_ip req \<Longrightarrow> snd (rateLimit w m now store req) k = store k"
  by (simp add: rateLimit_def Let_def)

text \<open>A content request whose limiter answers \<open>(Next, store)\<close> or \<open>(Respond, store)\<close>.\<close>

lemma apiRouter_admitted:
  assumes m: "matchContentRoute (decodeURIComponent E) (req_method req) (req_path req) = Match kind h i"
    and rl: "rateLimit windowMs maxHits now (limiterOf kind st) (req\<lparr>req_params := [(''hash'', h), (''indices'', i)]\<rparr>)
               = (Next (req\<lparr>req_params := [(''hash'', h), (''indices'', i)]\<rparr>), store)"
  shows "fst (apiRouter E now st req) = afterLimiter E req"
    and "fst (snd (apiRouter E now st req)) = setLimiter kind store st"
    and "take 3 (snd (snd (apiRouter E now st req))) =
           [RateLimit kind, AuthenticateContentRequest, PassportAuthenticate]"
proof -
  let ?req1 = "req\<lparr>req_params := [(''hash'', h), (''indices'', i)]\<rparr>"
  obtain r where acr: "authenticateContentRequest (verifyToken E) (safeParse E) (getAuthToken E) ?req1 = Next r"
    using acr_Next by blast
  have np: "\<not> isPublic req" using m by (rule match_not_public)
  obtain out seen where sg: "sessionGate E (r\<lparr>req_params := []\<rparr>) = (out, seen)"
    by (cases "sessionGate E (r\<lparr>req_params := []\<rparr>)")
  have seen: "take 1 seen = [PassportAuthenticate]"
    using sessionGate_first [of E "r\<lparr>req_params := []\<rparr>"] sg by simp
  have api: "apiRouter E now st req =
      (out, setLimiter kind store st, [RateLimit kind, AuthenticateContentRequest] @ seen)"
    by (simp add: apiRouter_def np contentRoutes_def m rl Let_def acr sg)
  show "fst (apiRouter E now st req) = afterLimiter E req"
    by (simp add: api afterLimiter_def m acr sg)
  show "fst (snd (apiRouter E now st req)) = setLimiter kind store st"
    by (simp add: api)
  show "take 3 (snd (snd (apiRouter E now st req))) =
           [RateLimit kind, AuthenticateContentRequest, PassportAuthenticate]"
    using seen by (cases seen) (simp_all add: api)
qed

lemma apiRouter_limited:
  assumes m: "matchContentRoute (decodeURIComponent E) (req_method req) (req_path req) = Match kind h i"
    and rl: "rateLimit windowMs maxHits now (limiterOf kind st) (req\<lparr>req_params := [(''hash'', h), (''indices'', i)]\<rparr>)
               = (Respond r, store)"
  shows "apiRouter E now st req = (Done r, setLimiter kind store st, [RateLimit kind])"
proof -
  have np: "\<not> isPublic req" using m by (rule match_not_public)
  show ?thesis
    by (simp add: apiRouter_def np contentRoutes_def m rl Let_def)
qed

lemma apiRouter_live:
  assumes m: "matchContentRoute (decodeURIComponent E) (req_method req) (req_path req) = Match kind h i"
    and c: "limiterOf kind st (req_ip req) = Some c" and t: "now < windowStart c + windowMs"
  shows "fst (snd (apiRouter E now st req)) =
           setLimiter kind ((limiterOf kind st)(req_ip req := Some (c\<lparr>count := Suc (count c)\<rparr>))) st"
    and "count c < maxHits \<Longrightarrow> fst (apiRouter E now st req) = afterLimiter E req"
    and "count c < maxHits \<Longrightarrow> take 3 (snd (snd (apiRouter E now st req))) =
           [RateLimit kind, AuthenticateContentRequest, PassportAuthenticate]"
    and "\<not> count c < maxHits \<Longrightarrow>
           (fst (apiRouter E now st req), snd (snd (apiRouter E now st req))) =
           (Done tooManyRequests, [RateLimit kind])"
proof -
  let ?req1 = "req\<lparr>req_params := [(''hash'', h), (''indices'', i)]\<rparr>"
  let ?store = "(limiterOf kind st)(req_ip req := Some (c\<lparr>count := Suc (count c)\<rparr>))"
  have rl: "rateLimit windowMs maxHits now (limiterOf kind st) ?req1 =
           (if count c < maxHits then Next ?req1 else Respond tooManyRequests, ?store)"
    using rateLimit_live [of "limiterOf kind st" ?req1 c now windowMs maxHits] c t by simp
  show "fst (snd (apiRouter E now st req)) = setLimiter kind ?store st"
    using apiRouter_admitted(2) [OF m, of now st ?store] apiRouter_limited [OF m, of now st tooManyRequests ?store] rl
    by (cases "count c < maxHits") simp_all
  show "count c < maxHits \<Longrightarrow> fst (apiRouter E now st req) = afterLimiter E req"
    using apiRouter_admitted(1) [OF m, of now st ?store] rl by simp
  show "count c < maxHits \<Longrightarrow> take 3 (snd (snd (apiRouter E now st req))) =
           [RateLimit kind, AuthenticateContentRequest, PassportAuthenticate]"
    using apiRouter_admitted(3) [OF m, of now st ?store] rl by simp
  show "\<not> count c < maxHits \<Longrightarrow>
           (fst (apiRouter E now st req), snd (snd (apiRouter E now st req))) =
           (Done tooManyRequests, [RateLimit kind])"
    using apiRouter_limited [OF m, of now st tooManyRequests ?store] rl by simp
qed

lemma apiRouter_open:
  assumes m: "matchContentRoute (decodeURIComponent E) (req_method req) (req_path req) = Match kind h i"
    and c: "\<forall>c. limiterOf kind st (req_ip req) = Some c \<longrightarrow> windowStart c + windowMs \<le> now"
  shows "fst (snd (apiRouter E now st req)) =
           setLimiter kind ((limiterOf kind st)(req_ip req := Some \<lparr>windowStart = now, count = 1\<rparr>)) st"
    and "fst (apiRouter E now st req) = afterLimiter E req"
    and "take 3 (snd (snd (apiRouter E now st req))) =
           [RateLimit kind, AuthenticateContentRequest, PassportAuthenticate]"
proof -
  let ?req1 = "req\<lparr>req_params := [(''hash'', h), (''indices'', i)]\<rparr>"
  let ?store = "(limiterOf kind st)(req_ip req := Some \<lparr>windowStart = now, count = 1\<rparr>)"
  have rl: "rateLimit windowMs maxHits now (limiterOf kind st) ?req1 = (Next ?req1, ?store)"
    using rateLimit_open [of "limiterOf kind st" ?req1 windowMs now maxHits] c by (simp add: maxHits_def)
  show "fst (snd (apiRouter E now st req)) = setLimiter kind ?store st"
    by (rule apiRouter_admitted(2) [OF m rl])
  show "fst (apiRouter E now st req) = afterLimiter E req"
    by (rule apiRouter_admitted(1) [OF m rl])
  show "take 3 (snd (snd (apiRouter E now st req))) =
           [RateLimit kind, AuthenticateContentRequest, PassportAuthenticate]"
    by (rule apiRouter_admitted(3) [OF m rl])
qed

text \<open>Any other request leaves the counter of this client on this route as it is.\<close>

lemma apiRouter_miss:
  assumes "\<not> isHit E kind key req"
  shows "limiterOf kind (fst (snd (apiRouter E now st req))) key = limiterOf kind st key"
proof (cases "matchContentRoute (decodeURIComponent E) (req_method req) (req_path req)")
  case NoMatch
  then show ?thesis
    by (simp add: apiRouter_def contentRoutes_def split: option.splits prod.splits)
next
  case BadParam
  then show ?thesis
    by (simp add: apiRouter_def contentRoutes_def split: option.splits prod.splits)
next
  case (Match k h i)
  let ?req1 = "req\<lparr>req_params := [(''hash'', h), (''indices'', i)]\<rparr>"
  have np: "\<not> isPublic req" using Match by (rule match_not_public)
  obtain res store where rl: "rateLimit windowMs maxHits now (limiterOf k st) ?req1 = (res, store)"
    by (cases "rateLimit windowMs maxHits now (limiterOf k st) ?req1")
  have st': "fst (snd (apiRouter E now st req)) = setLimiter k store st"
    by (cases res) (simp_all add: apiRouter_def np contentRoutes_def Match rl Let_def split: prod.splits mw_result.splits)
  show ?thesis
  proof (cases "k = kind")
    case True
    with assms Match have "key \<noteq> req_ip ?req1" by (auto simp: isHit_def)
    from rateLimit_other [OF this, of windowMs maxHits now "limiterOf k st"] rl True
    show ?thesis by (simp add: st')
  next
    case False
    then show ?thesis by (simp add: st' limiterOf_setLimiter_other)
  qed
qed

lemma serve_Cons:
  "fst (serve E st ((t, r) # rest)) =
     (fst (apiRouter E t st r), snd (snd (apiRouter E t st r)))
       # fst (serve E (fst (snd (apiRouter E t st r))) rest)"
  by (simp add: Let_def)

lemma serve_Cons_snd:
  "snd (serve E st ((t, r) # rest)) = snd (serve E (fst (snd (apiRouter E t st r))) rest)"
  by (simp add: Let_def)

lemma hitsUpTo_0: "hitsUpTo E kind key ((t, r) # rest) 0 = (if isHit E kind key r then 1 else 0)"
  by (simp add: hitsUpTo_def)

lemma hitsUpTo_Suc:
  "hitsUpTo E kind key ((t, r) # rest) (Suc j) =
     (if isHit E kind key r then 1 else 0) + hitsUpTo E kind key rest j"
  by (simp add: hitsUpTo_def)

lemma serve_live:
  assumes "limiterOf kind st key = Some c"
    and "\<forall>tr \<in> set reqs. isHit E kind key (snd tr) \<longrightarrow> fst tr < windowStart c + windowMs"
    and "j < length reqs" and "isHit E kind key (snd (reqs ! j))"
  shows "(count c + hitsUpTo E kind key reqs j \<le> maxHits \<longrightarrow>
            fst (fst (serve E st reqs) ! j) = afterLimiter E (snd (reqs ! j)) \<and>
            take 3 (snd (fst (serve E st reqs) ! j)) =
              [RateLimit kind, AuthenticateContentRequest, PassportAuthenticate])
       \<and> (maxHits < count c + hitsUpTo E kind key reqs j \<longrightarrow>
            fst (serve E st reqs) ! j = (Done tooManyRequests, [RateLimit kind]))"
  using assms
proof (induction reqs arbitrary: st c j)
  case Nil
  then show ?case by simp
next
  case (Cons tr reqs)
  obtain t r where tr: "tr = (t, r)" by (cases tr)
  let ?st' = "fst (snd (apiRouter E t st r))"
  show ?case
  proof (cases "isHit E kind key r")
    case True
    then obtain h i where ip: "req_ip r = key"
      and m: "matchContentRoute (decodeURIComponent E) (req_method r) (req_path r) = Match kind h i"
      by (auto simp: isHit_def split: route_match.splits)
    from Cons.prems(2) tr True have t: "t < windowStart c + windowMs" by simp
    have c: "limiterOf kind st (req_ip r) = Some c" using Cons.prems(1) ip by simp
    let ?c' = "c\<lparr>count := Suc (count c)\<rparr>"
    have lim': "limiterOf kind ?st' key = Some ?c'"
      using apiRouter_live(1) [OF m c t] ip by simp
    have rest: "\<forall>tr \<in> set reqs. isHit E kind key (snd tr) \<longrightarrow> fst tr < windowStart ?c' + windowMs"
      using Cons.prems(2) by simp
    show ?thesis
    proof (cases j)
      case 0
      show ?thesis
        using apiRouter_live(2,3,4) [OF m c t] True
        by (cases "count c < maxHits") (simp_all add: tr 0 serve_Cons hitsUpTo_0 del: serve.simps)
    next
      case (Suc j')
      with Cons.prems(3,4) have j': "j' < length reqs" "isHit E kind key (snd (reqs ! j'))" by simp_all
      from Cons.IH [OF lim' rest j']
      show ?thesis
        using True by (simp add: tr Suc serve_Cons hitsUpTo_Suc del: serve.simps)
    qed
  next
    case False
    have lim': "limiterOf kind ?st' key = Some c"
      using apiRouter_miss [OF False] Cons.prems(1) by simp
    have rest: "\<forall>tr \<in> set reqs. isHit E kind key (snd tr) \<longrightarrow> fst tr < windowStart c + windowMs"
      using Cons.prems(2) by simp
    show ?thesis
    proof (cases j)
      case 0
      with Cons.prems(4) tr False show ?thesis by simp
    next
      case (Suc j')
      with Cons.prems(3,4) have j': "j' < length reqs" "isHit E kind key (snd (reqs ! j'))" by simp_all
      from Cons.IH [OF lim' rest j']
      show ?thesis
        using False by (simp add: tr Suc serve_Cons hitsUpTo_Suc del: serve.simps)
    qed
  qed
qed

text \<open>
  C4, amended: the two content routes count apart. Take any run of requests, of any
  clients and to any paths, and a client whose request to a content route opens a window
  there (it finds no counter, or one whose five minutes are over). Of this client's
  requests to this same route that arrive within the five minutes of the window, the
  first hundred go through the limiter, the token check and the session check, in this
  order, and are answered by them; the 101st and every later one is answered 429 by the
  limiter, and neither the token check nor the session check is run for it, whatever its
  token is.
\<close>

theorem rate_limit_per_route:
  assumes "\<forall>c. limiterOf kind st key = Some c \<longrightarrow> windowStart c + windowMs \<le> t0"
    and "reqs = (t0, r0) # rest" and "isHit E kind key r0"
    and "\<forall>tr \<in> set rest. isHit E kind key (snd tr) \<longrightarrow> fst tr < t0 + windowMs"
    and "j < length reqs" and "isHit E kind key (snd (reqs ! j))"
  shows "(hitsUpTo E kind key reqs j \<le> 100 \<longrightarrow>
            fst (fst (serve E st reqs) ! j) = afterLimiter E (snd (reqs ! j)) \<and>
            take 3 (snd (fst (serve E st reqs) ! j)) =
              [RateLimit kind, AuthenticateContentRequest, PassportAuthenticate])
       \<and> (100 < hitsUpTo E kind key reqs j \<longrightarrow>
            fst (serve E st reqs) ! j = (Done tooManyRequests, [RateLimit kind]))"
proof -
  from assms(3) obtain h i where ip: "req_ip r0 = key"
    and m: "matchContentRoute (decodeURIComponent E) (req_method r0) (req_path r0) = Match kind h i"
    by (auto simp: isHit_def split: route_match.splits)
  have c: "\<forall>c. limiterOf kind st (req_ip r0) = Some c \<longrightarrow> windowStart c + windowMs \<le> t0"
    using assms(1) ip by simp
  let ?c = "\<lparr>windowStart = t0, count = 1\<rparr>"
  let ?st' = "fst (snd (apiRouter E t0 st r0))"
  have lim': "limiterOf kind ?st' key = Some ?c"
    using apiRouter_open(1) [OF m c] ip by simp
  have rest: "\<forall>tr \<in> set rest. isHit E kind key (snd tr) \<longrightarrow> fst tr < windowStart ?c + windowMs"
    using assms(4) by simp
  show ?thesis
  proof (cases j)
    case 0
    show ?thesis
      using apiRouter_open(2,3) [OF m c] assms(3)
      by (simp add: assms(2) 0 serve_Cons hitsUpTo_0 del: serve.simps)
  next
    case (Suc j')
    with assms(2,5,6) have j': "j' < length rest" "isHit E kind key (snd (rest ! j'))" by simp_all
    from serve_live [OF lim' rest j']
    show ?thesis
      using assms(3) by (simp add: assms(2) Suc serve_Cons hitsUpTo_Suc maxHits_def del: serve.simps)
  qed
qed

lemma scenario_hit_data:
  "isHit scenario_deps Data ''10.0.0.7'' (scenario_request ''/torrents/abc/contents/0-1/data'' q c)"
  by (simp add: isHit_def scenario_defs match_defs)

lemma scenario_hit_capitals:
  "isHit scenario_deps Data ''10.0.0.7'' (scenario_request ''/Torrents/abc/Contents/0-1/Data/'' q c)"
  by (simp add: isHit_def scenario_defs match_defs)

lemma scenario_miss_subtitles:
  "\<not> isHit scenario_deps Data ''10.0.0.7'' (scenario_request ''/torrents/abc/contents/0-1/subtitles'' q c)"
  by (simp add: isHit_def scenario_defs match_defs)

lemma scenario_miss_client:
  "\<not> isHit scenario_deps Data ''10.0.0.7'' ((scenario_request p q c)\<lparr>req_ip := ''10.0.0.8''\<rparr>)"
  by (simp add: isHit_def scenario_defs)

lemmas scenario_hits = scenario_hit_data scenario_hit_capitals scenario_miss_subtitles scenario_miss_client

lemma scenario_traffic_100:
  "scenario_traffic ! 100 = (2, scenario_request ''/torrents/abc/contents/0-1/data'' [(''token'', JStr ''T'')] [])"
  by (simp add: scenario_traffic_def nth_append nth_Cons')

lemma scenario_traffic_102:
  "scenario_traffic ! 102 = (4, scenario_request ''/Torrents/abc/Contents/0-1/Data/'' [(''token'', JStr ''T'')] [])"
  by (simp add: scenario_traffic_def nth_append nth_Cons')

lemma scenario_hits_100: "hitsUpTo scenario_deps Data ''10.0.0.7'' scenario_traffic 100 = 100"
  by (simp add: hitsUpTo_def scenario_traffic_def scenario_hits take_Cons')

lemma scenario_hits_102: "hitsUpTo scenario_deps Data ''10.0.0.7'' scenario_traffic 102 = 101"
  by (simp add: hitsUpTo_def scenario_traffic_def scenario_hits take_Cons')

lemma scenario_afterLimiter:
  "afterLimiter scenario_deps (scenario_request ''/torrents/abc/contents/0-1/data'' [(''token'', JStr ''T'')] [])
     = Business ((scenario_request ''/torrents/abc/contents/0-1/data'' [(''token'', JStr ''T'')] [(''jwt'', ''jwt:bob@1000'')])
          \<lparr>req_user := Some ''bob''\<rparr>)"
  by (simp add: afterLimiter_def scenario_defs match_defs router_defs)

theorem rate_limit_per_route_witness:
  "fst (fst (serve scenario_deps initial_state scenario_traffic) ! 100)
     = Business ((scenario_request ''/torrents/abc/contents/0-1/data'' [(''token'', JStr ''T'')] [(''jwt'', ''jwt:bob@1000'')])
          \<lparr>req_user := Some ''bob''\<rparr>)
   \<and> take 3 (snd (fst (serve scenario_deps initial_state scenario_traffic) ! 100))
     = [RateLimit Data, AuthenticateContentRequest, PassportAuthenticate]
   \<and> fst (serve scenario_deps initial_state scenario_traffic) ! 102 = (Done tooManyRequests, [RateLimit Data])"
proof -
  let ?r0 = "scenario_request ''/torrents/abc/contents/0-1/data'' [(''token'', JStr ''T'')] []"
  let ?rest = "(1, (scenario_request ''/torrents/abc/contents/0-1/data'' [] [])\<lparr>req_ip := ''10.0.0.8''\<rparr>)
     # replicate 99 (2, scenario_request ''/torrents/abc/contents/0-1/data'' [(''token'', JStr ''T'')] [])
     @ [(3, scenario_request ''/torrents/abc/contents/0-1/subtitles'' [(''token'', JStr ''T'')] []),
        (4, scenario_request ''/Torrents/abc/Contents/0-1/Data/'' [(''token'', JStr ''T'')] [])]"
  have fresh: "\<forall>c. limiterOf Data initial_state ''10.0.0.7'' = Some c \<longrightarrow> windowStart c + windowMs \<le> 0"
    by (simp add: initial_state_def)
  have split: "scenario_traffic = (0, ?r0) # ?rest"
    by (simp add: scenario_traffic_def)
  have window: "\<forall>tr \<in> set ?rest. isHit scenario_deps Data ''10.0.0.7'' (snd tr) \<longrightarrow> fst tr < 0 + windowMs"
    by (simp add: windowMs_def)
  have len: "100 < length scenario_traffic" "102 < length scenario_traffic"
    by (simp_all add: scenario_traffic_def)
  have hit: "isHit scenario_deps Data ''10.0.0.7'' (snd (scenario_traffic ! 100))"
    "isHit scenario_deps Data ''10.0.0.7'' (snd (scenario_traffic ! 102))"
    by (simp_all add: scenario_traffic_100 scenario_traffic_102 scenario_hits)
  show ?thesis
    using rate_limit_per_route [OF fresh split scenario_hit_data window len(1) hit(1)]
      rate_limit_per_route [OF fresh split scenario_hit_data window len(2) hit(2)]
    by (simp add: scenario_hits_100 scenario_hits_102 scenario_traffic_100 scenario_afterLimiter)
qed

lemma serve_append:
  "serve E st (xs @ ys) =
     (fst (serve E st xs) @ fst (serve E (snd (serve E st xs)) ys),
      snd (serve E (snd (serve E st xs)) ys))"
  by (induction xs arbitrary: st) (auto simp: Let_def)

lemma serve_length: "length (fst (serve E st xs)) = length xs"
  by (induction xs arbitrary: st) (auto simp: Let_def)

lemma serve_miss:
  assumes "\<forall>tr \<in> set xs. \<not> isHit E kind key (snd tr)"
  shows "limiterOf kind (snd (serve E st xs)) key = limiterOf kind st key"
  using assms
proof (induction xs arbitrary: st)
  case Nil
  then show ?case by simp
next
  case (Cons tr xs)
  obtain t r where tr: "tr = (t, r)" by (cases tr)
  from Cons.prems tr have miss: "\<not> isHit E kind key r" by simp
  have "limiterOf kind (snd (serve E (fst (snd (apiRouter E t st r))) xs)) key
      = limiterOf kind (fst (snd (apiRouter E t st r))) key"
    using Cons.IH Cons.prems by simp
  then show ?case
    using apiRouter_miss [OF miss] by (simp add: tr serve_Cons_snd del: serve.simps)
qed

lemma other_route_open:
  assumes xs: "\<forall>tr \<in> set xs. \<not> isHit E kind key (snd tr)"
    and fresh: "limiterOf kind st key = None"
    and hit: "isHit E kind key r"
  shows "fst (fst (serve E st (xs @ [(t, r)])) ! length xs) = afterLimiter E r"
proof -
  let ?st' = "snd (serve E st xs)"
  from hit obtain h i where ip: "req_ip r = key"
    and m: "matchContentRoute (decodeURIComponent E) (req_method r) (req_path r) = Match kind h i"
    by (auto simp: isHit_def split: route_match.splits)
  have "\<forall>c. limiterOf kind ?st' (req_ip r) = Some c \<longrightarrow> windowStart c + windowMs \<le> t"
    using serve_miss [OF xs] fresh ip by simp
  from apiRouter_open(2) [OF m this]
  show ?thesis
    by (simp add: serve_append nth_append serve_length Let_def)
qed

text \<open>
  C4 as stated fails: after a hundred requests to the data route, the 101st request of
  the same client, one millisecond later, to the subtitles route is not answered 429; it
  meets a fresh counter and is served.
\<close>

theorem shared_budget_counterexample:
  "fst (fst (serve scenario_deps initial_state
     (replicate 100 (0, scenario_request ''/torrents/abc/contents/0-1/data'' [(''token'', JStr ''T'')] [])
      @ [(1, scenario_request ''/torrents/abc/contents/0-1/subtitles'' [(''token'', JStr ''T'')] [])])) ! 100)
   = Business ((scenario_request ''/torrents/abc/contents/0-1/subtitles'' [(''token'', JStr ''T'')] [(''jwt'', ''jwt:bob@1000'')])
          \<lparr>req_user := Some ''bob''\<rparr>)
   \<and> fst (fst (serve scenario_deps initial_state
     (replicate 100 (0, scenario_request ''/torrents/abc/contents/0-1/data'' [(''token'', JStr ''T'')] [])
      @ [(1, scenario_request ''/torrents/abc/contents/0-1/subtitles'' [(''token'', JStr ''T'')] [])])) ! 100)
   \<noteq> Done tooManyRequests"
proof -
  have miss: "\<forall>tr \<in> set (replicate 100 (0::nat, scenario_request ''/torrents/abc/contents/0-1/data'' [(''token'', JStr ''T'')] [])).
      \<not> isHit scenario_deps Subtitles ''10.0.0.7'' (snd tr)"
    by (simp add: isHit_def scenario_defs match_defs)
  have fresh: "limiterOf Subtitles initial_state ''10.0.0.7'' = None"
    by (simp add: initial_state_def)
  have hit: "isHit scenario_deps Subtitles ''10.0.0.7''
      (scenario_request ''/torrents/abc/contents/0-1/subtitles'' [(''token'', JStr ''T'')] [])"
    by (simp add: isHit_def scenario_defs match_defs)
  have after: "afterLimiter scenario_deps
      (scenario_request ''/torrents/abc/contents/0-1/subtitles'' [(''token'', JStr ''T'')] [])
     = Business ((scenario_request ''/torrents/abc/contents/0-1/subtitles'' [(''token'', JStr ''T'')] [(''jwt'', ''jwt:bob@1000'')])
          \<lparr>req_user := Some ''bob''\<rparr>)"
    by (simp add: afterLimiter_def scenario_defs match_defs router_defs)
  show ?thesis
    using other_route_open [OF miss fresh hit, of 1] by (simp add: after)
qed

section \<open>Sanitized paths\<close>

lemma split_path_nonempty: "split_path p \<noteq> []"
  by (induction p) (auto split: list.splits)

lemma split_path_sep_free: "list_all (list_all (\<lambda>c. \<not> is_sep c)) (split_path p)"
  by (induction p) (auto split: list.splits)

lemma resolve_segments_subset:
  "set (resolve_segments acc xs) \<subseteq> set acc \<union> {s \<in> set xs. s \<noteq> [] \<and> s \<noteq> ''.'' \<and> s \<noteq> ''..''}"
proof (induction xs arbitrary: acc)
  case Nil
  then show ?case by simp
next
  case (Cons x xs)
  have tl: "set (tl acc) \<subseteq> set acc" by (cases acc) auto
  show ?case
    using Cons.IH [of acc] Cons.IH [of "tl acc"] Cons.IH [of "x # acc"] tl
    by (auto simp del: One_nat_def)
qed

lemma normal_segments_clean: "s \<in> set (normal_segments p) \<Longrightarrow> clean_segment s"
  using resolve_segments_subset [of "[]" "split_path p"] split_path_sep_free [of p]
  by (auto simp: normal_segments_def clean_segment_def list_all_iff)

lemma split_path_prepend:
  "list_all (\<lambda>c. \<not> is_sep c) s \<Longrightarrow>
   split_path (s @ r) = (s @ hd (split_path r)) # tl (split_path r)"
proof (induction s)
  case Nil
  then show ?case using split_path_nonempty [of r] by simp
next
  case (Cons a s)
  then show ?case by simp
qed

lemma split_join_segments:
  "list_all clean_segment segs \<Longrightarrow>
   split_path (join_segments segs) = (if segs = [] then [[]] else [] # segs)"
proof (induction segs)
  case Nil
  then show ?case by simp
next
  case (Cons s segs)
  then have sf: "list_all (\<lambda>c. \<not> is_sep c) s" and IH: "split_path (join_segments segs) = (if segs = [] then [[]] else [] # segs)"
    by (simp_all add: clean_segment_def)
  show ?case
    by (simp add: is_sep_def split_path_prepend [OF sf] IH)
qed

lemma resolve_clean:
  "list_all clean_segment segs \<Longrightarrow> resolve_segments acc segs = rev acc @ segs"
  by (induction segs arbitrary: acc) (simp_all add: clean_segment_def)

lemma normal_segments_join:
  assumes "list_all clean_segment segs"
  shows "normal_segments (join_path segs) = segs"
proof (cases "segs = []")
  case True
  then show ?thesis
    by (simp add: normal_segments_def join_path_def is_sep_def)
next
  case False
  then show ?thesis
    using assms by (simp add: normal_segments_def join_path_def split_join_segments resolve_clean)
qed

lemma join_path_absolute: "is_absolute (join_path segs)"
  by (cases segs) (simp_all add: is_absolute_def join_path_def is_sep_def)

lemma join_segments_chars:
  "c \<in> set (join_segments segs) \<Longrightarrow> c = CHR ''/'' \<or> (\<exists>s \<in> set segs. c \<in> set s)"
  by (induction segs) auto

text \<open>
  C9: sanitizing a sanitized path changes nothing, and a sanitized path is absolute,
  written with the one separator \<^verbatim>\<open>/\<close>, and made of segments none of which is
  empty, \<^verbatim>\<open>.\<close> or \<^verbatim>\<open>..\<close>.
\<close>

theorem sanitizePath_idempotent:
  "sanitizePath base (sanitizePath base p) = sanitizePath base p
   \<and> is_absolute (sanitizePath base p)
   \<and> CHR 0x5C \<notin> set (sanitizePath base p)
   \<and> (\<exists>segs. sanitizePath base p = join_path segs \<and>
        (\<forall>s \<in> set segs. s \<noteq> [] \<and> s \<noteq> ''.'' \<and> s \<noteq> ''..'' \<and> (\<forall>c \<in> set s. \<not> is_sep c)))"
proof (intro conjI)
  let ?segs = "normal_segments (if is_absolute p then p else base @ ''/'' @ p)"
  have clean: "list_all clean_segment ?segs"
    by (simp add: list_all_iff normal_segments_clean)
  have eq: "sanitizePath base p = join_path ?segs"
    by (simp add: sanitizePath_def)
  show "is_absolute (sanitizePath base p)"
    by (simp add: eq join_path_absolute)
  then show "sanitizePath base (sanitizePath base p) = sanitizePath base p"
    using normal_segments_join [OF clean] by (simp add: sanitizePath_def)
  show "CHR 0x5C \<notin> set (sanitizePath base p)"
  proof
    assume "CHR 0x5C \<in> set (sanitizePath base p)"
    then have "CHR 0x5C \<in> set (join_segments ?segs)"
      by (auto simp: eq join_path_def split: if_splits)
    then obtain s where "s \<in> set ?segs" "CHR 0x5C \<in> set s"
      using join_segments_chars by fastforce
    then show False
      using clean by (auto simp: list_all_iff clean_segment_def is_sep_def)
  qed
  show "\<exists>segs. sanitizePath base p = join_path segs \<and>
        (\<forall>s \<in> set segs. s \<noteq> [] \<and> s \<noteq> ''.'' \<and> s \<noteq> ''..'' \<and> (\<forall>c \<in> set s. \<not> is_sep c))"
    using clean eq by (intro exI [of _ ?segs]) (auto simp: list_all_iff clean_segment_def)
qed


theorem sanitizePath_idempotent_witness:
  "sanitizePath ''/srv/flood'' (''downloads/./a/..'' @ CHR 0x5C # ''b'') = ''/srv/flood/downloads/b''
   \<and> sanitizePath ''/srv/flood'' ''/srv/flood/downloads/b'' = ''/srv/flood/downloads/b''"
  using sanitizePath_idempotent [of "''/srv/flood''" "(''downloads/./a/..'' @ CHR 0x5C # ''b'')"]
  by (simp add: sanitizePath_def is_absolute_def is_sep_def normal_segments_def join_path_def)

section \<open>Error answers\<close>

lemma isAllowedPath_iff:
  "isAllowedPath roots p \<longleftrightarrow>
     (\<exists>root \<in> set roots. \<exists>below. normal_segments p = normal_segments root @ below)"
  by (auto simp: isAllowedPath_def list_ex_iff prefix_def)

lemma error_body_shape: "has_error_shape (error_body e)"
  by (simp add: error_body_def)

text \<open>
  C5: when the \<^verbatim>\<open>path\<close> of the query is missing, is not a string or is the empty
  string, the answer is 404 with the code and the message of
  \<^verbatim>\<open>fileNotFoundError()\<close>, and the file system has not been called.
\<close>

theorem directory_list_missing_path:
  assumes "typeof (query_value ''path'' req) \<noteq> StringT \<or> query_value ''path'' req = JStr []"
  shows "directoryList F fs req =
           (Sent \<lparr>status = 404,
                  body = Json (JObj [(''code'', JStr (code (fileNotFoundError F))),
                                     (''message'', JStr (message (fileNotFoundError F)))])\<rparr>, [])"
  using assms
  by (cases "query_value ''path'' req") (auto simp: directoryList_def error_body_def)

theorem directory_list_missing_path_witness:
  "directoryList scenario_files scenario_fs (scenario_request ''/directory-list'' [] [])
     = (Sent \<lparr>status = 404,
              body = Json (JObj [(''code'', JStr ''FileNotFoundError''),
                                 (''message'', JStr ''No such file or directory'')])\<rparr>, [])
   \<and> directoryList scenario_files scenario_fs (scenario_request ''/directory-list'' [(''path'', JStr [])] [])
     = (Sent \<lparr>status = 404,
              body = Json (JObj [(''code'', JStr ''FileNotFoundError''),
                                 (''message'', JStr ''No such file or directory'')])\<rparr>, [])
   \<and> directoryList scenario_files scenario_fs
        (scenario_request ''/directory-list'' [(''path'', JArr [JStr ''/data'', JStr ''/etc''])] [])
     = (Sent \<lparr>status = 404,
              body = Json (JObj [(''code'', JStr ''FileNotFoundError''),
                                 (''message'', JStr ''No such file or directory'')])\<rparr>, [])"
  using
    directory_list_missing_path [of "scenario_request ''/directory-list'' [] []" scenario_files scenario_fs]
    directory_list_missing_path [of "scenario_request ''/directory-list'' [(''path'', JStr [])] []" scenario_files scenario_fs]
    directory_list_missing_path [of "scenario_request ''/directory-list'' [(''path'', JArr [JStr ''/data'', JStr ''/etc''])] []"
      scenario_files scenario_fs]
  by (simp add: scenario_defs)

text \<open>
  C6: when the sanitized path is neither a root of the allow-list nor below one, the
  answer is 403 with the code and the message of \<^verbatim>\<open>accessDeniedError()\<close>, and the
  handler has neither read nor stat-ed anything.
\<close>

theorem directory_list_outside_roots:
  assumes "query_value ''path'' req = JStr inputPath" and "inputPath \<noteq> []"
    and "\<not> isAllowedPath (allowedPaths F) (sanitizePath (cwd F) inputPath)"
  shows "directoryList F fs req =
           (Sent \<lparr>status = 403,
                  body = Json (JObj [(''code'', JStr (code (accessDeniedError F))),
                                     (''message'', JStr (message (accessDeniedError F)))])\<rparr>, [])"
  using assms by (simp add: directoryList_def error_body_def Let_def)

lemmas path_defs = sanitizePath_def isAllowedPath_def normal_segments_def join_path_def
  is_absolute_def is_sep_def

theorem directory_list_outside_roots_witness:
  "sanitizePath ''/srv/flood'' ''../../etc'' = ''/etc''
   \<and> \<not> isAllowedPath [''/data/downloads''] ''/etc''
   \<and> directoryList scenario_files scenario_fs (scenario_request ''/directory-list'' [(''path'', JStr ''../../etc'')] [])
     = (Sent \<lparr>status = 403,
              body = Json (JObj [(''code'', JStr ''AccessDeniedError''),
                                 (''message'', JStr ''Permission denied'')])\<rparr>, [])"
  using directory_list_outside_roots [of "scenario_request ''/directory-list'' [(''path'', JStr ''../../etc'')] []"
      "''../../etc''" scenario_files scenario_fs]
  by (simp add: scenario_defs path_defs)

text \<open>An allowed directory, for comparison: one listing, then a look at every entry.\<close>

lemma directoryList_ok:
  "directoryList scenario_files scenario_fs (scenario_request ''/directory-list'' [(''path'', JStr ''/data/downloads/'')] [])
   = (Sent \<lparr>status = 200,
            body = Json (JObj [(''directories'', JArr [JStr ''movies'']),
                               (''files'', JArr [JStr ''notes.txt'']),
                               (''hasParent'', JBool True),
                               (''path'', JStr ''/data/downloads''),
                               (''separator'', JStr ''/'')])\<rparr>,
      [Readdir ''/data/downloads'', Exists ''/data/downloads/movies'', Stat ''/data/downloads/movies'',
       Exists ''/data/downloads/notes.txt'', Stat ''/data/downloads/notes.txt'',
       Exists ''/data/downloads/gone''])"
  by (simp add: scenario_defs path_defs directoryList_def Let_def white_space_def line_terminator_def)

text \<open>
  C8, amended: the error bodies of the directory listing (404 and 403) have the shape
  \<^verbatim>\<open>{code: string, message: string}\<close>. The 500 body of the two notification
  routes is \<^verbatim>\<open>{message: string}\<close>, without a code, and the 500 body of the history
  route is the rejection of the history service, as it is.
\<close>

theorem error_bodies:
  "(\<forall>resp calls. directoryList F fs req = (Sent resp, calls) \<and> status resp \<noteq> 200 \<longrightarrow>
       has_error_shape (body resp))
   \<and> (\<forall>resp. notificationsHandler svc req = Some resp \<and> status resp \<noteq> 200 \<longrightarrow>
       (\<exists>m. body resp = Json (JObj [(''message'', JStr m)])))
   \<and> (\<forall>resp. clearNotificationsHandler svc req = Some resp \<and> status resp \<noteq> 200 \<longrightarrow>
       (\<exists>m. body resp = Json (JObj [(''message'', JStr m)])))
   \<and> (\<forall>resp. historyHandler svc req = Some resp \<and> status resp \<noteq> 200 \<longrightarrow>
       (\<exists>s err. svc = Some s \<and> getHistory s (req_query req) = Inl err \<and> body resp = Json err))
   \<and> (\<forall>s err. svc = Some s \<and> settingGet s None = Inl err \<longrightarrow>
       getSettingsHandler callback svc req = Some (callback None (Some err)))
   \<and> (\<forall>s err. svc = Some s \<and> settingGet s (map_of (req_params req) ''property'') = Inl err \<longrightarrow>
       getSettingHandler callback svc req = Some (callback None (Some err)))
   \<and> (\<forall>s err. svc = Some s \<and> settingSet s (req_body req) = Inl err \<longrightarrow>
       patchSettingsHandler callback svc req = Some (callback None (Some err)))"
proof (intro conjI allI impI)
  fix resp calls
  assume a: "directoryList F fs req = (Sent resp, calls) \<and> status resp \<noteq> 200"
  then have "body resp = error_body (fileNotFoundError F) \<or> body resp = error_body (accessDeniedError F)"
    unfolding directoryList_def Let_def
    by (auto split: jsvalue.splits if_splits sum.splits prod.splits)
  then show "has_error_shape (body resp)"
    using error_body_shape by auto
next
  fix resp
  assume "notificationsHandler svc req = Some resp \<and> status resp \<noteq> 200"
  then show "\<exists>m. body resp = Json (JObj [(''message'', JStr m)])"
    by (auto simp: notificationsHandler_def split: option.splits sum.splits)
next
  fix resp
  assume "clearNotificationsHandler svc req = Some resp \<and> status resp \<noteq> 200"
  then show "\<exists>m. body resp = Json (JObj [(''message'', JStr m)])"
    by (auto simp: clearNotificationsHandler_def split: option.splits sum.splits)
next
  fix resp
  assume "historyHandler svc req = Some resp \<and> status resp \<noteq> 200"
  then show "\<exists>s err. svc = Some s \<and> getHistory s (req_query req) = Inl err \<and> body resp = Json err"
    by (auto simp: historyHandler_def split: option.splits sum.splits)
next
  fix s err
  assume "svc = Some s \<and> settingGet s None = Inl err"
  then show "getSettingsHandler callback svc req = Some (callback None (Some err))"
    by (simp add: getSettingsHandler_def settled_def)
next
  fix s err
  assume "svc = Some s \<and> settingGet s (map_of (req_params req) ''property'') = Inl err"
  then show "getSettingHandler callback svc req = Some (callback None (Some err))"
    by (simp add: getSettingHandler_def settled_def)
next
  fix s err
  assume "svc = Some s \<and> settingSet s (req_body req) = Inl err"
  then show "patchSettingsHandler callback svc req = Some (callback None (Some err))"
    by (simp add: patchSettingsHandler_def settled_def)
qed

theorem error_bodies_witness:
  "has_error_shape (Json (JObj [(''code'', JStr ''AccessDeniedError''), (''message'', JStr ''Permission denied'')]))
   \<and> (\<exists>m. Json (JObj [(''message'', JStr ''store closed'')]) = Json (JObj [(''message'', JStr m)]))
   \<and> notificationsHandler (Some scenario_services) (scenario_request ''/notifications'' [] [])
       = Some \<lparr>status = 500, body = Json (JObj [(''message'', JStr ''store closed'')])\<rparr>
   \<and> historyHandler (Some scenario_services) (scenario_request ''/history'' [] [])
       = Some \<lparr>status = 500, body = Json (JStr ''store closed'')\<rparr>"
  using error_bodies [of scenario_files scenario_fs
      "scenario_request ''/directory-list'' [(''path'', JStr ''../../etc'')] []"
      "Some scenario_services"]
    error_bodies [of scenario_files scenario_fs "scenario_request ''/notifications'' [] []" "Some scenario_services"]
    error_bodies [of scenario_files scenario_fs "scenario_request ''/history'' [] []" "Some scenario_services"]
  by (simp add: scenario_defs notificationsHandler_def historyHandler_def)

text \<open>
  C8 as stated fails: when the notification service rejects, the 500 body has a message
  and no code; when the history service rejects with a string, the 500 body is that
  string.
\<close>

theorem error_shape_counterexample:
  "notificationsHandler (Some scenario_services) (scenario_request ''/notifications'' [] [])
     = Some \<lparr>status = 500, body = Json (JObj [(''message'', JStr ''store closed'')])\<rparr>
   \<and> \<not> has_error_shape (Json (JObj [(''message'', JStr ''store closed'')]))
   \<and> historyHandler (Some scenario_services) (scenario_request ''/history'' [] [])
     = Some \<lparr>status = 500, body = Json (JStr ''store closed'')\<rparr>
   \<and> \<not> has_error_shape (Json (JStr ''store closed''))"
  by (simp add: scenario_defs notificationsHandler_def historyHandler_def)

end
